theory Spec2Isabelle
  imports Main "HOL-Library.Sublist"
begin

section \<open>Shared data structures (types.ts)\<close>

text \<open>
  The three interfaces of \<^verbatim>\<open>types.ts\<close>. Field \<^verbatim>\<open>id\<close> is called \<open>dep_id\<close> (the name
  \<open>id\<close> is HOL's identity function); the \<^verbatim>\<open>dependency\<close> field of an AuditResult is
  called \<open>ar_dependency\<close>, that of an ActionStep keeps its name. The optional
  \<^verbatim>\<open>installedVersion?: string\<close> is a \<open>string option\<close> (\<open>None\<close> for \<^verbatim>\<open>undefined\<close>).
\<close>

record DependencyRequirement =
  dep_id :: string
  name :: string
  requiredVersion :: string
  cliName :: string
  versionFlag :: string

record AuditResult =
  ar_dependency :: DependencyRequirement
  isInstalled :: bool
  installedVersion :: "string option"

datatype Action = INSTALL | REINSTALL | ALREADY_MET

record ActionStep =
  dependency :: DependencyRequirement
  action :: Action
  reason :: string

type_synonym ActionPlan = "ActionStep list"

section \<open>Strings and decimal numerals\<close>

text \<open>
  JavaScript renders an integer inside a template literal in decimal, with a leading
  minus sign when negative; \<^verbatim>\<open>parseInt(s, 10)\<close> reads a run of decimal digits back.
\<close>

definition sq :: string where
  "sq = [CHR 0x27]"

definition dq :: string where
  "dq = [CHR 0x22]"

definition backslash_n :: string where
  "backslash_n = [CHR 0x5C, CHR ''n'']"

definition digit_char :: "nat \<Rightarrow> char" where
  "digit_char d = ''0123456789'' ! d"

definition is_digit :: "char \<Rightarrow> bool" where
  "is_digit c = (c \<in> set ''0123456789'')"

definition digit_val :: "char \<Rightarrow> nat" where
  "digit_val c = of_char c - 48"

fun digits :: "nat \<Rightarrow> string" where
  "digits n = (if n < 10 then [digit_char n] else digits (n div 10) @ [digit_char (n mod 10)])"

declare digits.simps [simp del]

definition string_of_int :: "int \<Rightarrow> string" where
  "string_of_int i = (if i < 0 then CHR ''-'' # digits (nat (- i)) else digits (nat i))"

definition parseInt :: "string \<Rightarrow> nat" where
  "parseInt ds = foldl (\<lambda>acc c. 10 * acc + digit_val c) 0 ds"

text \<open>
  Truthiness of an optional string: \<^verbatim>\<open>undefined\<close>, \<^verbatim>\<open>null\<close> and the empty string are
  falsy. \<open>or_else v d\<close> is \<^verbatim>\<open>v || d\<close>.
\<close>

definition truthy :: "string option \<Rightarrow> bool" where
  "truthy v = (case v of None \<Rightarrow> False | Some s \<Rightarrow> s \<noteq> [])"

definition or_else :: "string option \<Rightarrow> string \<Rightarrow> string" where
  "or_else v d = (case v of None \<Rightarrow> d | Some s \<Rightarrow> if s = [] then d else s)"

section \<open>The Planner (Planner.ts)\<close>

text \<open>
  \<^verbatim>\<open>semver.satisfies\<close> belongs to an external library; it is the parameter
  \<open>satisfies\<close> (installed version, required range). \<open>determineAction\<close> follows the
  three returns of the source in their order; the second test is
  \<^verbatim>\<open>installedVersion && semver.satisfies(...)\<close>, so a falsy version never reaches
  \<open>satisfies\<close>.
\<close>

definition determineAction :: "(string \<Rightarrow> string \<Rightarrow> bool) \<Rightarrow> AuditResult \<Rightarrow> ActionStep" where
  "determineAction satisfies result =
     (let dep = ar_dependency result; iv = installedVersion result in
      if \<not> isInstalled result then
        \<lparr>dependency = dep, action = INSTALL, reason = name dep @ '' is not installed.''\<rparr>
      else if truthy iv \<and> satisfies (or_else iv []) (requiredVersion dep) then
        \<lparr>dependency = dep, action = ALREADY_MET,
         reason = name dep @ '' is installed at a compatible version ('' @ or_else iv [] @ '').''\<rparr>
      else
        \<lparr>dependency = dep, action = REINSTALL,
         reason = name dep @ '' is installed at an incompatible version ('' @
                  or_else iv ''unknown'' @ ''). Version '' @ requiredVersion dep @
                  '' is required.''\<rparr>)"

text \<open>The loop of \<^verbatim>\<open>createActionPlan\<close>: one \<^verbatim>\<open>plan.push\<close> per audit result, in order.\<close>

definition createActionPlan :: "(string \<Rightarrow> string \<Rightarrow> bool) \<Rightarrow> AuditResult list \<Rightarrow> ActionPlan" where
  "createActionPlan satisfies auditResults =
     foldl (\<lambda>plan result. plan @ [determineAction satisfies result]) [] auditResults"

text \<open>
  A finite fragment of semver range satisfaction, enough for the scenarios of the
  requirement \<^verbatim>\<open>^18.17.0\<close>: of the versions used below only 18.20.2 lies in the range.
\<close>

definition satisfies_sample :: "string \<Rightarrow> string \<Rightarrow> bool" where
  "satisfies_sample v r = (v = ''18.20.2'' \<and> r = ''^18.17.0'')"

definition node_requirement :: DependencyRequirement where
  "node_requirement =
     \<lparr>dep_id = ''node'', name = ''Node.js'', requiredVersion = ''^18.17.0'',
      cliName = ''node'', versionFlag = ''-v''\<rparr>"

definition git_requirement :: DependencyRequirement where
  "git_requirement =
     \<lparr>dep_id = ''git'', name = ''Git'', requiredVersion = ''^2.40.0'',
      cliName = ''git'', versionFlag = ''--version''\<rparr>"

section \<open>The host: platform, events and external replies\<close>

text \<open>
  \<^verbatim>\<open>os.platform()\<close> returns one of the values of \<^verbatim>\<open>NodeJS.Platform\<close>.
\<close>

datatype Platform =
  Aix | Android | Darwin | Freebsd | Haiku | Linux | Openbsd | Sunos | Win32 | Cygwin | Netbsd

fun platform_name :: "Platform \<Rightarrow> string" where
  "platform_name Aix = ''aix''"
| "platform_name Android = ''android''"
| "platform_name Darwin = ''darwin''"
| "platform_name Freebsd = ''freebsd''"
| "platform_name Haiku = ''haiku''"
| "platform_name Linux = ''linux''"
| "platform_name Openbsd = ''openbsd''"
| "platform_name Sunos = ''sunos''"
| "platform_name Win32 = ''win32''"
| "platform_name Cygwin = ''cygwin''"
| "platform_name Netbsd = ''netbsd''"

text \<open>The non-null values of the module variable \<^verbatim>\<open>detectedPackageManager\<close>.\<close>

datatype PackageManager = Apt | Dnf | Pacman | Unknown

fun pm_name :: "PackageManager \<Rightarrow> string" where
  "pm_name Apt = ''apt''"
| "pm_name Dnf = ''dnf''"
| "pm_name Pacman = ''pacman''"
| "pm_name Unknown = ''unknown''"

type_synonym terminal = nat

text \<open>
  Every effect of the program on its host is an event; a run is the list of its events
  in the order they happen.
\<close>

datatype event =
    AppendLine string
  | Append string
  | ShowErrorMessage string
  | ShowInformationMessage string
  | CreateTerminal string
  | TerminalShow terminal
  | SendText terminal string
  | Exec string
  | ReadFile string
  | OpenExternal string

text \<open>
  What \<^verbatim>\<open>cp.exec\<close> reports for one command: the callback's error (its \<^verbatim>\<open>killed\<close> flag
  and message) or none, the collected standard output and standard error, and the
  \<^verbatim>\<open>data\<close> chunks of both streams in their order of arrival.
\<close>

record exec_reply =
  exec_error :: "(bool \<times> string) option"
  exec_stdout :: string
  exec_stderr :: string
  exec_data :: "string list"

text \<open>A settled or unsettled promise of no value.\<close>

datatype completion = Fulfilled | Rejected string | Pending

text \<open>
  What \<^verbatim>\<open>runAudit\<close> can find under \<^verbatim>\<open>config.dependencies\<close> after \<^verbatim>\<open>JSON.parse\<close>,
  whose result is cast without any check. \<open>NoDependencies\<close>: the parsed value or its
  \<^verbatim>\<open>dependencies\<close> is falsy or missing. \<open>DependencyArray\<close>: an array; an element is
  \<open>None\<close> for \<^verbatim>\<open>null\<close>, and otherwise the record of its five fields as texts (a
  missing field printing as \<^verbatim>\<open>undefined\<close>). \<open>NotAnArray\<close>: any other truthy value (a
  number, a string, an object), which has no \<^verbatim>\<open>map\<close>; its argument is \<open>None\<close> when
  its \<^verbatim>\<open>length\<close> is the number 0 and otherwise the text that its \<^verbatim>\<open>length\<close> prints
  as. \<^verbatim>\<open>JSON.parse\<close> itself throws (\<open>SyntaxError\<close>) or yields a value.
\<close>

datatype dependencies =
  NoDependencies | DependencyArray "DependencyRequirement option list" | NotAnArray "string option"

datatype parsed = SyntaxError | Parsed dependencies

text \<open>
  The host answers as a function of the events so far, so the same command may succeed
  at one moment and fail at another. \<open>exec_outcome\<close> is asked with a history that ends
  in the \<open>Exec\<close> event of the command, \<open>terminal_data\<close> with one that ends in the
  \<open>SendText\<close> event and yields the terminal data events delivered from then on,
  \<open>read_file\<close> with one that ends in the \<open>ReadFile\<close> event and yields the error
  code (\<open>Inl\<close>) or the content. \<open>date_now\<close> is the reading of \<^verbatim>\<open>Date.now()\<close>,
  \<open>create_terminal\<close> the terminal that \<^verbatim>\<open>createTerminal\<close> returns, \<open>dialog_choice\<close>
  the button chosen in a modal dialog. \<open>exec_outcome\<close> is what the callback of
  \<^verbatim>\<open>cp.exec\<close> reports; the Executor's calls carry a timeout, so their callback always
  comes (a process that does not exit is killed and reported with \<^verbatim>\<open>killed\<close> set). The
  Auditor's calls carry none: \<open>exec_returns\<close>, asked with the same history, tells
  whether the process ever exits, and when it does not the callback never comes.
  \<open>json_parse\<close>, \<open>path_join\<close>, \<open>coerce_version\<close>
  (\<^verbatim>\<open>semver.coerce(stdout.trim())?.version\<close>) and \<open>number_text\<close> are library
  functions; \<open>number_text ds\<close> is the text of \<^verbatim>\<open>`${parseInt(ds, 10)}`\<close> for a run of
  digits \<open>ds\<close> that denotes \<open>2 ^ 53\<close> or more, where JavaScript rounds the value to a
  double and prints that.
\<close>

record world =
  platform :: Platform
  exec_outcome :: "event list \<Rightarrow> exec_reply"
  exec_returns :: "event list \<Rightarrow> bool"
  date_now :: "event list \<Rightarrow> int"
  terminal_data :: "event list \<Rightarrow> (terminal \<times> string) list"
  create_terminal :: "event list \<Rightarrow> terminal"
  read_file :: "event list \<Rightarrow> string + string"
  dialog_choice :: "event list \<Rightarrow> string option"
  workspaceFolders :: "string list option"
  path_join :: "string \<Rightarrow> string \<Rightarrow> string"
  json_parse :: "string \<Rightarrow> parsed"
  coerce_version :: "string \<Rightarrow> string option"
  number_text :: "string \<Rightarrow> string"

section \<open>The interactive command channel\<close>

text \<open>
  \<^verbatim>\<open>e.data.match(new RegExp(`${commandId}:(\\d+)`))\<close>: the command id consists of
  letters, underscores, digits and possibly a minus sign, so it stands for itself in
  the pattern. \<open>match_at\<close> matches the pattern at the start of the text (the literal
  id, a colon, then the longest non-empty run of digits) and yields the captured
  digits; \<open>regex_match\<close> takes the leftmost position where it matches.
  \<open>exit_code\<close> is \<^verbatim>\<open>exitCodeMatch ? parseInt(exitCodeMatch[1], 10) : -1\<close> as the
  integer that the digits denote. \<^verbatim>\<open>parseInt\<close> yields that integer below \<open>2 ^ 53\<close>
  and a double rounded from it above, which is never zero: the test
  \<^verbatim>\<open>exitCode === 0\<close> is the test \<open>exit_code = 0\<close> for every run of digits.
  \<open>exit_code_text\<close> is \<^verbatim>\<open>`${exitCode}`\<close>: the decimal numeral below \<open>2 ^ 53\<close>, and
  what the parameter \<open>render\<close> (the library's printing of the rounded value) gives for
  the captured digits from there on.
\<close>

fun drop_prefix :: "string \<Rightarrow> string \<Rightarrow> string option" where
  "drop_prefix [] s = Some s"
| "drop_prefix (p # ps) [] = None"
| "drop_prefix (p # ps) (c # cs) = (if p = c then drop_prefix ps cs else None)"

definition match_at :: "string \<Rightarrow> string \<Rightarrow> string option" where
  "match_at commandId s =
     (case drop_prefix (commandId @ '':'') s of
        None \<Rightarrow> None
      | Some rest \<Rightarrow>
          if takeWhile is_digit rest = [] then None else Some (takeWhile is_digit rest))"

fun regex_match :: "string \<Rightarrow> string \<Rightarrow> string option" where
  "regex_match commandId [] = match_at commandId []"
| "regex_match commandId (c # cs) =
     (case match_at commandId (c # cs) of
        Some ds \<Rightarrow> Some ds
      | None \<Rightarrow> regex_match commandId cs)"

definition exit_code :: "string \<Rightarrow> string \<Rightarrow> int" where
  "exit_code commandId data =
     (case regex_match commandId data of Some ds \<Rightarrow> int (parseInt ds) | None \<Rightarrow> - 1)"

definition exit_code_text :: "(string \<Rightarrow> string) \<Rightarrow> string \<Rightarrow> string \<Rightarrow> string" where
  "exit_code_text render commandId data =
     (case regex_match commandId data of
        Some ds \<Rightarrow> if parseInt ds < 2 ^ 53 then string_of_int (int (parseInt ds)) else render ds
      | None \<Rightarrow> string_of_int (- 1))"

text \<open>
  The promise of one interactive command together with its subscription to
  \<^verbatim>\<open>onDidWriteTerminalData\<close>. \<open>on_terminal_data\<close> is the listener's body;
  \<open>hint\<close> is the text that the Auditor's copy of the listener adds to the error
  message (empty in the Executor), \<open>render\<close> the parameter of \<open>exit_code_text\<close>.
  \<open>deliver\<close> is the host delivering one data event:
  a disposed listener is not called. \<open>await_terminal\<close> delivers the events in order
  to a fresh subscription.
\<close>

record pending_command =
  subscribed :: bool
  outcome :: completion

definition on_terminal_data ::
  "(string \<Rightarrow> string) \<Rightarrow> string \<Rightarrow> string \<Rightarrow> terminal \<Rightarrow> pending_command \<Rightarrow>
   terminal \<times> string \<Rightarrow> pending_command" where
  "on_terminal_data render hint commandId terminal p e =
     (if fst e = terminal \<and> sublist commandId (snd e) then
        (let exitCode = exit_code commandId (snd e) in
         \<lparr>subscribed = False,
          outcome = (if exitCode = 0 then Fulfilled
                     else Rejected (''Command failed with exit code '' @
                                    exit_code_text render commandId (snd e) @ ''.'' @ hint))\<rparr>)
      else p)"

definition deliver ::
  "(string \<Rightarrow> string) \<Rightarrow> string \<Rightarrow> string \<Rightarrow> terminal \<Rightarrow> pending_command \<Rightarrow>
   terminal \<times> string \<Rightarrow> pending_command" where
  "deliver render hint commandId terminal p e =
     (if subscribed p then on_terminal_data render hint commandId terminal p e else p)"

definition await_terminal ::
  "(string \<Rightarrow> string) \<Rightarrow> string \<Rightarrow> string \<Rightarrow> terminal \<Rightarrow> (terminal \<times> string) list \<Rightarrow>
   pending_command" where
  "await_terminal render hint commandId terminal es =
     foldl (deliver render hint commandId terminal) \<lparr>subscribed = True, outcome = Pending\<rparr> es"

definition commandId_at :: "world \<Rightarrow> event list \<Rightarrow> string" where
  "commandId_at w h = ''COMMAND_EXIT_CODE_'' @ string_of_int (date_now w h)"

section \<open>The package catalog (dependencyConfig.ts)\<close>

text \<open>
  The object literal \<^verbatim>\<open>PACKAGE_NAMES\<close>, entry by entry: dependency id, then the package
  name under each of the keys win32, darwin, apt, dnf, pacman, zypper (\<open>None\<close> for
  \<^verbatim>\<open>null\<close>).
\<close>

definition PACKAGE_NAMES :: "(string \<times> (string \<times> string option) list) list" where
  "PACKAGE_NAMES =
     [
      (''python'',
        [(''win32'', Some ''Python.Python.3''), (''darwin'', Some ''python@3.12''), (''apt'', Some ''python3''), (''dnf'', Some ''python3''), (''pacman'', Some ''python''), (''zypper'', Some ''python3'')]),
      (''node'',
        [(''win32'', Some ''OpenJS.NodeJS.LTS''), (''darwin'', Some ''node''), (''apt'', Some ''nodejs''), (''dnf'', Some ''nodejs''), (''pacman'', Some ''nodejs''), (''zypper'', Some ''nodejs'')]),
      (''java_lts'',
        [(''win32'', Some ''Microsoft.OpenJDK.21''), (''darwin'', Some ''openjdk@21''), (''apt'', Some ''openjdk-21-jdk''), (''dnf'', Some ''java-21-openjdk-devel''), (''pacman'', Some ''jdk-openjdk''), (''zypper'', Some ''java-21-openjdk-devel'')]),
      (''go'',
        [(''win32'', Some ''Go.Go''), (''darwin'', Some ''go''), (''apt'', Some ''golang-go''), (''dnf'', Some ''golang''), (''pacman'', Some ''go''), (''zypper'', Some ''go'')]),
      (''rust'',
        [(''win32'', Some ''Rustlang.Rustup''), (''darwin'', Some ''rustup-init''), (''apt'', Some ''rustc''), (''dnf'', Some ''rust''), (''pacman'', Some ''rust''), (''zypper'', Some ''rust'')]),
      (''dotnet_sdk'',
        [(''win32'', Some ''Microsoft.DotNet.SDK.8''), (''darwin'', Some ''dotnet-sdk''), (''apt'', Some ''dotnet-sdk-8.0''), (''dnf'', Some ''dotnet-sdk-8.0''), (''pacman'', Some ''dotnet-sdk''), (''zypper'', Some ''dotnet-sdk-8_0'')]),
      (''git'',
        [(''win32'', Some ''Git.Git''), (''darwin'', Some ''git''), (''apt'', Some ''git''), (''dnf'', Some ''git''), (''pacman'', Some ''git''), (''zypper'', Some ''git'')]),
      (''postgres'',
        [(''win32'', Some ''PostgreSQL.PostgreSQL''), (''darwin'', Some ''postgresql@16''), (''apt'', Some ''postgresql''), (''dnf'', Some ''postgresql-server''), (''pacman'', Some ''postgresql''), (''zypper'', Some ''postgresql-server'')]),
      (''mysql'',
        [(''win32'', Some ''Oracle.MySQL''), (''darwin'', Some ''mysql''), (''apt'', Some ''mysql-server''), (''dnf'', Some ''mysql-server''), (''pacman'', Some ''mariadb''), (''zypper'', Some ''mysql-community-server'')]),
      (''mongodb'',
        [(''win32'', Some ''MongoDB.Server''), (''darwin'', Some ''mongodb-community''), (''apt'', Some ''mongodb-org''), (''dnf'', Some ''mongodb-org''), (''pacman'', Some ''mongodb''), (''zypper'', Some ''mongodb'')]),
      (''redis'',
        [(''win32'', Some ''Redis.Redis''), (''darwin'', Some ''redis''), (''apt'', Some ''redis-server''), (''dnf'', Some ''redis''), (''pacman'', Some ''redis''), (''zypper'', Some ''redis'')]),
      (''sqlite'',
        [(''win32'', Some ''SQLite.SQLite''), (''darwin'', Some ''sqlite''), (''apt'', Some ''sqlite3''), (''dnf'', Some ''sqlite''), (''pacman'', Some ''sqlite''), (''zypper'', Some ''sqlite3'')]),
      (''docker'',
        [(''win32'', Some ''Docker.DockerDesktop''), (''darwin'', Some ''docker''), (''apt'', Some ''docker.io''), (''dnf'', Some ''moby-engine''), (''pacman'', Some ''docker''), (''zypper'', Some ''docker'')]),
      (''kubernetes_cli'',
        [(''win32'', Some ''Kubernetes.kubectl''), (''darwin'', Some ''kubernetes-cli''), (''apt'', Some ''kubectl''), (''dnf'', Some ''kubectl''), (''pacman'', Some ''kubectl''), (''zypper'', Some ''kubectl'')]),
      (''terraform'',
        [(''win32'', Some ''HashiCorp.Terraform''), (''darwin'', Some ''terraform''), (''apt'', Some ''terraform''), (''dnf'', Some ''terraform''), (''pacman'', Some ''terraform''), (''zypper'', Some ''terraform'')]),
      (''aws_cli'',
        [(''win32'', Some ''Amazon.AWSCLI''), (''darwin'', Some ''awscli''), (''apt'', Some ''awscli''), (''dnf'', Some ''awscli''), (''pacman'', Some ''aws-cli''), (''zypper'', Some ''aws-cli'')]),
      (''azure_cli'',
        [(''win32'', Some ''Microsoft.AzureCLI''), (''darwin'', Some ''azure-cli''), (''apt'', Some ''azure-cli''), (''dnf'', Some ''azure-cli''), (''pacman'', Some ''azure-cli''), (''zypper'', Some ''azure-cli'')]),
      (''gcloud_cli'',
        [(''win32'', Some ''Google.CloudSDK''), (''darwin'', Some ''google-cloud-sdk''), (''apt'', Some ''google-cloud-cli''), (''dnf'', Some ''google-cloud-cli''), (''pacman'', Some ''google-cloud-sdk''), (''zypper'', None)]),
      (''jq'',
        [(''win32'', Some ''stedolan.jq''), (''darwin'', Some ''jq''), (''apt'', Some ''jq''), (''dnf'', Some ''jq''), (''pacman'', Some ''jq''), (''zypper'', Some ''jq'')]),
      (''neovim'',
        [(''win32'', Some ''Neovim.Neovim''), (''darwin'', Some ''neovim''), (''apt'', Some ''neovim''), (''dnf'', Some ''neovim''), (''pacman'', Some ''neovim''), (''zypper'', Some ''neovim'')])
     ]"

section \<open>The Executor (Executor.ts)\<close>

text \<open>
  The state of the Executor module: the module variable \<^verbatim>\<open>detectedPackageManager\<close>
  (\<open>None\<close> for \<^verbatim>\<open>null\<close>), the events so far, and a counter of the assignments made to
  the variable (bookkeeping of the model; the program does not read it).
\<close>

record executor_state =
  detectedPackageManager :: "PackageManager option"
  pm_assignments :: nat
  history :: "event list"

definition emit :: "event \<Rightarrow> executor_state \<Rightarrow> executor_state" where
  "emit e s = s\<lparr>history := history s @ [e]\<rparr>"

definition assign_pm :: "PackageManager \<Rightarrow> executor_state \<Rightarrow> executor_state" where
  "assign_pm m s = s\<lparr>detectedPackageManager := Some m, pm_assignments := Suc (pm_assignments s)\<rparr>"

text \<open>The state of a freshly loaded module.\<close>

definition module_loaded :: executor_state where
  "module_loaded = \<lparr>detectedPackageManager = None, pm_assignments = 0, history = []\<rparr>"

definition runCommandSilently :: "world \<Rightarrow> executor_state \<Rightarrow> string \<Rightarrow> completion \<times> executor_state" where
  "runCommandSilently w s command =
     (let s1 = emit (AppendLine (''[Executor] > Running silently: '' @ command)) s;
          s2 = emit (Exec command) s1;
          r = exec_outcome w (history s2);
          s3 = foldl (\<lambda>st d. emit (Append d) st) s2 (exec_data r)
      in (case exec_error r of
            None \<Rightarrow> Fulfilled
          | Some (killed, message) \<Rightarrow>
              Rejected (if killed then ''Command timed out after 10 minutes.'' else message),
          s3))"

definition runCommandInTerminal ::
  "world \<Rightarrow> executor_state \<Rightarrow> string \<Rightarrow> terminal \<Rightarrow> completion \<times> executor_state" where
  "runCommandInTerminal w s command terminal =
     (let commandId = commandId_at w (history s);
          exitCodeCommand = ''echo '' @ commandId @ '':$?'';
          s1 = emit (SendText terminal (command @ ''; '' @ exitCodeCommand)) s
      in (outcome (await_terminal (number_text w) [] commandId terminal
                     (terminal_data w (history s1))),
          s1))"

definition runCommand ::
  "world \<Rightarrow> executor_state \<Rightarrow> string \<Rightarrow> terminal option \<Rightarrow> completion \<times> executor_state" where
  "runCommand w s command terminal =
     (case terminal of
        Some t \<Rightarrow> runCommandInTerminal w s command t
      | None \<Rightarrow> runCommandSilently w s command)"

text \<open>
  The loop of \<^verbatim>\<open>detectLinuxPackageManager\<close> over the managers still to try: the first
  probe that is fulfilled decides, a rejected probe moves on, and after the last one
  \<^verbatim>\<open>unknown\<close> is recorded.
\<close>

fun detect_loop ::
  "world \<Rightarrow> executor_state \<Rightarrow> PackageManager list \<Rightarrow> completion \<times> executor_state" where
  "detect_loop w s [] =
     (Fulfilled,
      assign_pm Unknown
        (emit (AppendLine ''[Executor] Could not detect a supported Linux package manager.'') s))"
| "detect_loop w s (manager # managers) =
     (case runCommandSilently w s (''command -v '' @ pm_name manager) of
        (Fulfilled, s1) \<Rightarrow>
          (Fulfilled,
           assign_pm manager (emit (AppendLine (''[Executor] Detected: '' @ pm_name manager)) s1))
      | (Rejected err, s1) \<Rightarrow> detect_loop w s1 managers
      | (Pending, s1) \<Rightarrow> (Pending, s1))"

definition detectLinuxPackageManager :: "world \<Rightarrow> executor_state \<Rightarrow> completion \<times> executor_state" where
  "detectLinuxPackageManager w s =
     (if detectedPackageManager s \<noteq> None then (Fulfilled, s)
      else detect_loop w (emit (AppendLine ''[Executor] Detecting Linux package manager...'') s)
             [Apt, Dnf, Pacman])"

text \<open>
  \<^verbatim>\<open>getPackageNameForPlatform\<close>: the catalog entry of the id, then the key (the cached
  package manager on Linux, the platform elsewhere), then the name under that key,
  \<^verbatim>\<open>undefined\<close>, \<^verbatim>\<open>null\<close> and the empty string all giving \<^verbatim>\<open>null\<close>. An id that
  names a member inherited from \<^verbatim>\<open>Object.prototype\<close> finds an object that has none of
  the keys, which is \<^verbatim>\<open>null\<close> as well, as for an id that the catalog lacks.
\<close>

definition getPackageNameForPlatform ::
  "PackageManager option \<Rightarrow> string \<Rightarrow> Platform \<Rightarrow> string option" where
  "getPackageNameForPlatform detected ident p =
     (case map_of PACKAGE_NAMES ident of
        None \<Rightarrow> None
      | Some platformSpecificNames \<Rightarrow>
          (let key = (if p = Linux then map_option pm_name detected else Some (platform_name p)) in
           if \<not> truthy key then None
           else (case map_of platformSpecificNames (or_else key []) of
                   None \<Rightarrow> None
                 | Some n \<Rightarrow> if truthy n then n else None)))"

definition getInstallCommand ::
  "PackageManager option \<Rightarrow> Platform \<Rightarrow> DependencyRequirement \<Rightarrow> string option" where
  "getInstallCommand detected p dep =
     (case getPackageNameForPlatform detected (dep_id dep) p of
        None \<Rightarrow> None
      | Some packageName \<Rightarrow>
          (case p of
             Win32 \<Rightarrow> Some (''winget install -e --id '' @ packageName)
           | Darwin \<Rightarrow> Some (''brew install '' @ packageName)
           | Linux \<Rightarrow>
               (case detected of
                  Some Apt \<Rightarrow> Some (''sudo apt-get install -y '' @ packageName)
                | Some Dnf \<Rightarrow> Some (''sudo dnf install -y '' @ packageName)
                | Some Pacman \<Rightarrow> Some (''sudo pacman -S --noconfirm '' @ packageName)
                | _ \<Rightarrow> None)
           | _ \<Rightarrow> None))"

definition getUninstallCommand ::
  "PackageManager option \<Rightarrow> Platform \<Rightarrow> DependencyRequirement \<Rightarrow> string option" where
  "getUninstallCommand detected p dep =
     (case getPackageNameForPlatform detected (dep_id dep) p of
        None \<Rightarrow> None
      | Some packageName \<Rightarrow>
          (case p of
             Win32 \<Rightarrow> Some (''winget uninstall -e --id '' @ packageName)
           | Darwin \<Rightarrow> Some (''brew uninstall '' @ packageName)
           | Linux \<Rightarrow>
               (case detected of
                  Some Apt \<Rightarrow> Some (''sudo apt-get remove -y '' @ packageName)
                | Some Dnf \<Rightarrow> Some (''sudo dnf remove -y '' @ packageName)
                | Some Pacman \<Rightarrow> Some (''sudo pacman -Rns --noconfirm '' @ packageName)
                | _ \<Rightarrow> None)
           | _ \<Rightarrow> None))"

definition install_start :: "DependencyRequirement \<Rightarrow> string" where
  "install_start dep = ''[Executor] Starting INSTALL for '' @ sq @ name dep @ sq @ ''...''"

definition no_install_command :: "DependencyRequirement \<Rightarrow> string" where
  "no_install_command dep =
     ''[Executor] ERROR: No install command configured for '' @ sq @ name dep @ sq @ '' on this OS.''"

definition uninstall_start :: "DependencyRequirement \<Rightarrow> string" where
  "uninstall_start dep = ''[Executor] Starting UNINSTALL for '' @ sq @ name dep @ sq @ ''...''"

definition no_uninstall_command :: "DependencyRequirement \<Rightarrow> string" where
  "no_uninstall_command dep =
     ''[Executor] ERROR: No uninstall command configured for '' @ sq @ name dep @ sq @ '' on this OS.''"

definition installDependency ::
  "world \<Rightarrow> executor_state \<Rightarrow> ActionStep \<Rightarrow> terminal option \<Rightarrow> completion \<times> executor_state" where
  "installDependency w s step terminal =
     (let s1 = emit (AppendLine (install_start (dependency step))) s in
      case getInstallCommand (detectedPackageManager s1) (platform w) (dependency step) of
        None \<Rightarrow>
          (Rejected (no_install_command (dependency step)),
           emit (ShowErrorMessage (no_install_command (dependency step))) s1)
      | Some command \<Rightarrow> runCommand w s1 command terminal)"

definition uninstallDependency ::
  "world \<Rightarrow> executor_state \<Rightarrow> ActionStep \<Rightarrow> terminal option \<Rightarrow> completion \<times> executor_state" where
  "uninstallDependency w s step terminal =
     (let s1 = emit (AppendLine (uninstall_start (dependency step))) s in
      case getUninstallCommand (detectedPackageManager s1) (platform w) (dependency step) of
        None \<Rightarrow>
          (Rejected (no_uninstall_command (dependency step)),
           emit (ShowErrorMessage (no_uninstall_command (dependency step))) s1)
      | Some command \<Rightarrow> runCommand w s1 command terminal)"

text \<open>
  The body of the \<^verbatim>\<open>try\<close> block of one step (\<open>step_body\<close>), and the step with its
  \<^verbatim>\<open>catch\<close> (\<open>run_step\<close>): a rejection is logged and the step completes; a promise
  that never settles leaves the run waiting.
\<close>

definition skip_message :: "DependencyRequirement \<Rightarrow> string" where
  "skip_message dep =
     ''[Executor] Skipping '' @ sq @ name dep @ sq @ '' - Requirement already met.''"

definition failed_message :: "DependencyRequirement \<Rightarrow> string" where
  "failed_message dep =
     ''[Executor] FAILED step for '' @ sq @ name dep @ sq @
     ''. Check logs or terminal for details.''"

definition send_if :: "terminal option \<Rightarrow> string \<Rightarrow> executor_state \<Rightarrow> executor_state" where
  "send_if terminal text s = (case terminal of Some t \<Rightarrow> emit (SendText t text) s | None \<Rightarrow> s)"

definition step_body ::
  "world \<Rightarrow> executor_state \<Rightarrow> ActionStep \<Rightarrow> terminal option \<Rightarrow> completion \<times> executor_state" where
  "step_body w s step terminal =
     (case action step of
        INSTALL \<Rightarrow> installDependency w s step terminal
      | REINSTALL \<Rightarrow>
          (case uninstallDependency w s step terminal of
             (r, s1) \<Rightarrow> if r = Fulfilled then installDependency w s1 step terminal else (r, s1))
      | ALREADY_MET \<Rightarrow>
          (Fulfilled,
           send_if terminal (''echo '' @ dq @ ''[INFO] '' @ skip_message (dependency step) @ dq)
             (emit (AppendLine (skip_message (dependency step))) s)))"

definition run_step ::
  "world \<Rightarrow> executor_state \<Rightarrow> ActionStep \<Rightarrow> terminal option \<Rightarrow> completion \<times> executor_state" where
  "run_step w s step terminal =
     (case step_body w s step terminal of
        (Rejected err, s1) \<Rightarrow>
          (Fulfilled,
           send_if terminal
             (''echo '' @ dq @ backslash_n @ ''[ERROR] '' @ failed_message (dependency step) @
              backslash_n @ dq)
             (emit (AppendLine (failed_message (dependency step))) s1))
      | (Fulfilled, s1) \<Rightarrow> (Fulfilled, s1)
      | (Pending, s1) \<Rightarrow> (Pending, s1))"

fun run_steps ::
  "world \<Rightarrow> executor_state \<Rightarrow> ActionPlan \<Rightarrow> terminal option \<Rightarrow> completion \<times> executor_state" where
  "run_steps w s [] terminal = (Fulfilled, s)"
| "run_steps w s (step # rest) terminal =
     (case run_step w s step terminal of
        (r, s1) \<Rightarrow> if r = Fulfilled then run_steps w s1 rest terminal else (r, s1))"

definition finished_line :: string where
  "finished_line = ''[Executor] Plan execution finished.''"

definition success_text :: string where
  "success_text =
     ''echo '' @ dq @ backslash_n @
     ''[SUCCESS] All setup tasks complete. You can now close this terminal.'' @ dq"

definition finish :: "terminal option \<Rightarrow> executor_state \<Rightarrow> executor_state" where
  "finish terminal s = send_if terminal success_text (emit (AppendLine finished_line) s)"

text \<open>
  \<open>open_terminal\<close> is the Linux branch at the head of \<^verbatim>\<open>executePlan\<close> up to
  \<^verbatim>\<open>terminal.show()\<close>; it yields the terminal and the state.
\<close>

definition open_terminal :: "world \<Rightarrow> executor_state \<Rightarrow> terminal \<times> executor_state" where
  "open_terminal w s =
     (let s1 = emit (CreateTerminal ''Dev Env Setup'') s;
          t = create_terminal w (history s1)
      in (t, emit (TerminalShow t) s1))"

definition plan_start :: "ActionPlan \<Rightarrow> string" where
  "plan_start plan =
     ''[Executor] Starting execution of '' @ digits (length plan) @ ''-step plan.''"

definition executePlan :: "world \<Rightarrow> executor_state \<Rightarrow> ActionPlan \<Rightarrow> completion \<times> executor_state" where
  "executePlan w s plan =
     (let s1 = emit (AppendLine (plan_start plan)) s in
      if platform w = Linux then
        (case open_terminal w s1 of
           (t, s2) \<Rightarrow>
             (case detectLinuxPackageManager w s2 of
                (d, s3) \<Rightarrow>
                  if d = Fulfilled then
                    (case run_steps w s3 plan (Some t) of
                       (r, s4) \<Rightarrow> if r = Fulfilled then (Fulfilled, finish (Some t) s4) else (r, s4))
                  else (d, s3)))
      else
        (case run_steps w s1 plan None of
           (r, s4) \<Rightarrow> if r = Fulfilled then (Fulfilled, finish None s4) else (r, s4)))"

section \<open>The Auditor (Auditor.ts)\<close>

text \<open>
  The Auditor has no module state: its functions take the events so far and return
  them extended. \<open>executeCommand\<close> yields the error message (\<open>Inl\<close>) or the standard
  output, or \<open>None\<close> when the process never exits and the promise stays unsettled.
  An \<^verbatim>\<open>async\<close> function returns a value, rejects with a TypeError raised in its body
  (\<open>Throws\<close>), or waits for ever on a promise that does not settle (\<open>Waits\<close>).
\<close>

datatype 'a awaited = Returns 'a | Throws | Waits

definition executeCommand ::
  "world \<Rightarrow> event list \<Rightarrow> string \<Rightarrow> (string + string) option \<times> event list" where
  "executeCommand w h command =
     (let h1 = h @ [Exec command]; r = exec_outcome w h1 in
      (if \<not> exec_returns w h1 then None
       else (case exec_error r of
               Some e \<Rightarrow> Some (Inl (if exec_stderr r = [] then ''Command failed'' else exec_stderr r))
             | None \<Rightarrow> Some (Inr (exec_stdout r))),
       h1))"

definition runCommandInTerminalAndWait ::
  "world \<Rightarrow> event list \<Rightarrow> terminal \<Rightarrow> string \<Rightarrow> completion \<times> event list" where
  "runCommandInTerminalAndWait w h terminal command =
     (let h1 = h @ [AppendLine (''[Auditor] > Sending to terminal: '' @ command)];
          commandId = commandId_at w h1;
          exitCodeCommand = ''echo '' @ commandId @ '':$?'';
          h2 = h1 @ [SendText terminal (command @ ''; '' @ exitCodeCommand)]
      in (outcome (await_terminal (number_text w) '' Please check the terminal for details.''
                     commandId terminal (terminal_data w h2)),
          h2))"

definition homebrew_install_command :: string where
  "homebrew_install_command =
     ''/bin/bash -c '' @ dq @
     ''$(curl -fsSL https://raw.githubusercontent.com/Homebrew/install/HEAD/install.sh)'' @ dq"

definition checkAndInstallHomebrew :: "world \<Rightarrow> event list \<Rightarrow> completion \<times> event list" where
  "checkAndInstallHomebrew w h =
     (case executeCommand w h ''command -v brew'' of
        (None, h1) \<Rightarrow> (Pending, h1)
      | (Some (Inr out), h1) \<Rightarrow> (Fulfilled, h1 @ [AppendLine ''[Auditor] Homebrew is installed.''])
      | (Some (Inl err), h1) \<Rightarrow>
          (let h2 = h1 @
                 [AppendLine ''[Auditor] Homebrew not found. Starting automatic installation...'',
                  ShowInformationMessage
                    ''Homebrew is not installed. The extension will now install it in the terminal.'',
                  CreateTerminal ''Dev Env Setup: Homebrew''];
               t = create_terminal w h2;
               h3 = h2 @ [TerminalShow t]
           in case runCommandInTerminalAndWait w h3 t homebrew_install_command of
                (Rejected installError, h4) \<Rightarrow>
                  (Rejected (''Homebrew installation failed. '' @ installError), h4)
              | (Pending, h4) \<Rightarrow> (Pending, h4)
              | (Fulfilled, h4) \<Rightarrow>
                  (case executeCommand w
                          (h4 @ [AppendLine ''[Auditor] Homebrew installation command finished.''])
                          ''command -v brew'' of
                     (None, h5) \<Rightarrow> (Pending, h5)
                   | (Some (Inr out), h5) \<Rightarrow>
                       (Fulfilled,
                        h5 @ [AppendLine ''[Auditor] Homebrew installation verified successfully.'',
                              ShowInformationMessage ''Homebrew has been successfully installed!''])
                   | (Some (Inl verifyError), h5) \<Rightarrow>
                       (Rejected
                          ''Homebrew installation could not be verified. Please check the terminal for errors.'',
                        h5))))"

definition checkWinget :: "world \<Rightarrow> event list \<Rightarrow> completion \<times> event list" where
  "checkWinget w h =
     (case executeCommand w h ''winget --version'' of
        (None, h1) \<Rightarrow> (Pending, h1)
      | (Some (Inr out), h1) \<Rightarrow> (Fulfilled, h1 @ [AppendLine ''[Auditor] Winget is installed.''])
      | (Some (Inl err), h1) \<Rightarrow>
          (let h2 = h1 @
                 [AppendLine ''[Auditor] Winget not found. Prompting user...'',
                  ShowErrorMessage
                    ''Windows Package Manager (winget) is not installed, but it is required for this extension to work.'']
           in if dialog_choice w h2 = Some ''Open Microsoft Store'' then
                (Rejected
                   (''Opened Microsoft Store. Please install '' @ dq @ ''App Installer'' @ dq @
                    '' and re-run the setup.''),
                 h2 @ [OpenExternal ''ms-windows-store://pdp/?productid=9NBLGGH4NNS1''])
              else (Rejected ''User cancelled setup. Winget installation is required.'', h2)))"

text \<open>
  \<^verbatim>\<open>s.split(c)\<close> for a one-character separator, and the parsing of
  \<^verbatim>\<open>/etc/os-release\<close>: the first line that starts with \<^verbatim>\<open>ID=\<close>, its second field
  between equals signs with every double quote removed, or \<^verbatim>\<open>unknown\<close> when there is
  no such line. \<open>None\<close> stands for the TypeError of a missing second field (which a
  line starting with \<^verbatim>\<open>ID=\<close> never lacks).
\<close>

fun split_on :: "char \<Rightarrow> string \<Rightarrow> string list" where
  "split_on c [] = [[]]"
| "split_on c (x # xs) =
     (if x = c then [] # split_on c xs
      else (case split_on c xs of [] \<Rightarrow> [[x]] | part # parts \<Rightarrow> (x # part) # parts))"

definition linux_distro :: "string \<Rightarrow> string option" where
  "linux_distro osRelease =
     (case find (prefix ''ID='') (split_on (CHR 0x0A) osRelease) of
        None \<Rightarrow> Some ''unknown''
      | Some idLine \<Rightarrow>
          (case split_on (CHR ''='') idLine of
             a # b # rest \<Rightarrow> Some (filter (\<lambda>c. c \<noteq> CHR 0x22) b)
           | _ \<Rightarrow> None))"

definition supportedDistros :: "string list" where
  "supportedDistros =
     [''ubuntu'', ''debian'', ''fedora'', ''centos'', ''rhel'', ''arch'', ''suse'', ''opensuse'']"

definition detectLinuxDistribution :: "world \<Rightarrow> event list \<Rightarrow> completion \<times> event list" where
  "detectLinuxDistribution w h =
     (let h1 = h @ [ReadFile ''/etc/os-release''] in
      case read_file w h1 of
        Inl code \<Rightarrow> (Rejected ''Could not detect Linux distribution.'', h1)
      | Inr osRelease \<Rightarrow>
          (case linux_distro osRelease of
             None \<Rightarrow> (Rejected ''Could not detect Linux distribution.'', h1)
           | Some distro \<Rightarrow>
               if distro \<in> set supportedDistros then
                 (Fulfilled,
                  h1 @ [AppendLine (''[Auditor] Detected supported Linux distribution: '' @ distro)])
               else
                 (Fulfilled,
                  h1 @ [AppendLine (''[Auditor] WARNING: Detected unsupported Linux distribution: '' @
                                    distro @ ''.'')])))"

definition ensurePackageManager :: "world \<Rightarrow> event list \<Rightarrow> completion \<times> event list" where
  "ensurePackageManager w h =
     (let h1 = h @ [AppendLine (''[Auditor] Performing pre-flight check for OS: '' @
                                platform_name (platform w))]
      in case platform w of
           Darwin \<Rightarrow> checkAndInstallHomebrew w h1
         | Win32 \<Rightarrow> checkWinget w h1
         | Linux \<Rightarrow> detectLinuxDistribution w h1
         | _ \<Rightarrow> (Rejected (''Unsupported operating system: '' @ platform_name (platform w)), h1))"

fun read_folders ::
  "world \<Rightarrow> event list \<Rightarrow> string list \<Rightarrow> dependencies option \<times> event list" where
  "read_folders w h [] =
     (None, h @ [ShowErrorMessage ''No .devsetup.json file found in your workspace.''])"
| "read_folders w h (folder # folders) =
     (let configPath = path_join w folder ''.devsetup.json'';
          h1 = h @ [ReadFile configPath];
          parse_error = AppendLine (''[Auditor] ERROR: Could not parse .devsetup.json in '' @
                                    folder @ ''.'')
      in case read_file w h1 of
           Inl code \<Rightarrow>
             if code \<noteq> ''ENOENT'' then read_folders w (h1 @ [parse_error]) folders
             else read_folders w h1 folders
         | Inr fileContent \<Rightarrow>
             (let h2 = h1 @ [AppendLine (''[Auditor] Found config file at: '' @ configPath)] in
              case json_parse w fileContent of
                SyntaxError \<Rightarrow> read_folders w (h2 @ [parse_error]) folders
              | Parsed config \<Rightarrow> (Some config, h2)))"

definition readConfigFile ::
  "world \<Rightarrow> event list \<Rightarrow> dependencies option \<times> event list" where
  "readConfigFile w h =
     (case workspaceFolders w of
        None \<Rightarrow> (None, h @ [ShowErrorMessage ''Cannot run audit: No workspace is currently open.''])
      | Some folders \<Rightarrow> read_folders w h folders)"

text \<open>
  \<^verbatim>\<open>readConfigFile\<close> returns \<^verbatim>\<open>null\<close> (\<open>None\<close>) or the parsed value.
  \<open>checkSingleDependency\<close> yields \<open>None\<close> when its process never exits, so that its
  promise never resolves. \<open>check_all\<close> is
  \<^verbatim>\<open>config.dependencies.map(dep => checkSingleDependency(dep))\<close>: the probes are
  started in the order of the array, the model taking each probe's reply as it is
  started; at a \<^verbatim>\<open>null\<close> element the callback raises a TypeError on
  \<^verbatim>\<open>dependency.cliName\<close> and the later elements are not reached (\<open>None\<close>).
  \<^verbatim>\<open>Promise.all\<close> keeps the order of the array and settles only when every probe has.
\<close>

definition checkSingleDependency ::
  "world \<Rightarrow> event list \<Rightarrow> DependencyRequirement \<Rightarrow> AuditResult option \<times> event list" where
  "checkSingleDependency w h dep =
     (let h1 = h @ [Exec (cliName dep @ '' '' @ versionFlag dep)]; r = exec_outcome w h1 in
      (if \<not> exec_returns w h1 then None
       else Some (case exec_error r of
                    Some e \<Rightarrow> \<lparr>ar_dependency = dep, isInstalled = False, installedVersion = None\<rparr>
                  | None \<Rightarrow>
                      \<lparr>ar_dependency = dep, isInstalled = True,
                       installedVersion = coerce_version w (exec_stdout r)\<rparr>),
       h1))"

fun check_all ::
  "world \<Rightarrow> event list \<Rightarrow> DependencyRequirement option list \<Rightarrow>
   AuditResult option list option \<times> event list" where
  "check_all w h [] = (Some [], h)"
| "check_all w h (None # deps) = (None, h)"
| "check_all w h (Some dep # deps) =
     (case checkSingleDependency w h dep of
        (r, h1) \<Rightarrow>
          (case check_all w h1 deps of
             (None, h2) \<Rightarrow> (None, h2)
           | (Some rs, h2) \<Rightarrow> (Some (r # rs), h2)))"

text \<open>
  \<open>audit_dependencies\<close> is \<^verbatim>\<open>runAudit\<close> from the call of \<^verbatim>\<open>readConfigFile\<close> on. A
  truthy \<^verbatim>\<open>dependencies\<close> that is not an array passes the test on its length unless
  that is 0, is announced with its length, and fails at \<^verbatim>\<open>.map\<close> with a TypeError.
\<close>

definition audit_dependencies ::
  "world \<Rightarrow> event list \<Rightarrow> AuditResult list option awaited \<times> event list" where
  "audit_dependencies w h =
     (case readConfigFile w h of
        (config, h1) \<Rightarrow>
          (case config of
             Some (DependencyArray (dep # deps)) \<Rightarrow>
               (case check_all w
                       (h1 @ [AppendLine (''[Auditor] Found '' @ digits (length (dep # deps)) @
                                          '' dependencies to check.'')])
                       (dep # deps) of
                  (None, h2) \<Rightarrow> (Throws, h2)
                | (Some probes, h2) \<Rightarrow>
                    (case those probes of
                       None \<Rightarrow> (Waits, h2)
                     | Some results \<Rightarrow>
                         (Returns (Some results),
                          h2 @ [AppendLine ''[Auditor] System audit complete.''])))
           | Some (NotAnArray (Some len)) \<Rightarrow>
               (Throws,
                h1 @ [AppendLine (''[Auditor] Found '' @ len @ '' dependencies to check.'')])
           | _ \<Rightarrow>
               (Returns (Some []),
                h1 @ [AppendLine ''[Auditor] No dependencies found in config. Audit finished.''])))"

definition runAudit :: "world \<Rightarrow> event list \<Rightarrow> AuditResult list option awaited \<times> event list" where
  "runAudit w h =
     (case ensurePackageManager w (h @ [AppendLine ''[Auditor] Starting system audit...'']) of
        (Rejected message, h1) \<Rightarrow>
          (Returns None,
           h1 @ [ShowErrorMessage (''Setup cannot continue: '' @ message),
                 AppendLine (''[Auditor] FATAL: '' @ message)])
      | (Pending, h1) \<Rightarrow> (Waits, h1)
      | (Fulfilled, h1) \<Rightarrow> audit_dependencies w h1)"

section \<open>Notions used in the statements\<close>

text \<open>
  \<open>extends s s'\<close>: the state \<open>s'\<close> has the cached package manager and the assignment
  count of \<open>s\<close>, and its events begin with those of \<open>s\<close>. \<open>step_announcement\<close> is
  the first event of a step: the log line that \<^verbatim>\<open>installDependency\<close>,
  \<^verbatim>\<open>uninstallDependency\<close> or the ALREADY_MET branch writes before anything else.
  \<open>no_command_events\<close> lists the events of one step in a terminal session when no
  install or uninstall command can be resolved. \<open>plan_terminal\<close> and
  \<open>detection_state\<close> name the terminal that a Linux run creates and the state in which
  it leaves package-manager detection; \<open>preflight_read\<close> is the history of an audit on
  Linux at the moment \<^verbatim>\<open>/etc/os-release\<close> is read.
\<close>

definition extends :: "executor_state \<Rightarrow> executor_state \<Rightarrow> bool" where
  "extends s s' \<longleftrightarrow>
     detectedPackageManager s' = detectedPackageManager s \<and>
     pm_assignments s' = pm_assignments s \<and>
     prefix (history s) (history s')"

definition step_announcement :: "ActionStep \<Rightarrow> event" where
  "step_announcement step =
     AppendLine (case action step of
                   INSTALL \<Rightarrow> install_start (dependency step)
                 | REINSTALL \<Rightarrow> uninstall_start (dependency step)
                 | ALREADY_MET \<Rightarrow> skip_message (dependency step))"

definition no_command_events :: "terminal \<Rightarrow> ActionStep \<Rightarrow> event list" where
  "no_command_events t step =
     (case action step of
        INSTALL \<Rightarrow>
          [AppendLine (install_start (dependency step)),
           ShowErrorMessage (no_install_command (dependency step)),
           AppendLine (failed_message (dependency step)),
           SendText t (''echo '' @ dq @ backslash_n @ ''[ERROR] '' @
                       failed_message (dependency step) @ backslash_n @ dq)]
      | REINSTALL \<Rightarrow>
          [AppendLine (uninstall_start (dependency step)),
           ShowErrorMessage (no_uninstall_command (dependency step)),
           AppendLine (failed_message (dependency step)),
           SendText t (''echo '' @ dq @ backslash_n @ ''[ERROR] '' @
                       failed_message (dependency step) @ backslash_n @ dq)]
      | ALREADY_MET \<Rightarrow>
          [AppendLine (skip_message (dependency step)),
           SendText t (''echo '' @ dq @ ''[INFO] '' @ skip_message (dependency step) @ dq)])"

definition plan_terminal :: "world \<Rightarrow> executor_state \<Rightarrow> ActionPlan \<Rightarrow> terminal" where
  "plan_terminal w s plan = fst (open_terminal w (emit (AppendLine (plan_start plan)) s))"

definition detection_state :: "world \<Rightarrow> executor_state \<Rightarrow> ActionPlan \<Rightarrow> executor_state" where
  "detection_state w s plan =
     snd (detectLinuxPackageManager w (snd (open_terminal w (emit (AppendLine (plan_start plan)) s))))"

definition preflight_read :: "event list \<Rightarrow> event list" where
  "preflight_read h =
     h @ [AppendLine ''[Auditor] Starting system audit...'',
          AppendLine ''[Auditor] Performing pre-flight check for OS: linux'',
          ReadFile ''/etc/os-release'']"

section \<open>Sample hosts\<close>

text \<open>
  Concrete hosts and steps for the scenarios below. \<open>sample_host\<close> is a Linux machine
  on which every command succeeds without output, the clock always reads
  1700000000000, the terminal writes nothing and no file can be read; the others change
  some replies of it. \<open>late_marker_host\<close> writes the marker with exit code 1 in its
  second data event; \<open>echo_host\<close> first writes the command line it was sent and then
  the marker with exit code 0; \<open>same_ms_host\<close> writes a marker with exit code 0;
  \<open>echoing_host\<close> writes back whatever text it was sent last; on \<open>no_manager_host\<close>
  and \<open>windows_failing_host\<close> every command fails; on \<open>dnf_host\<close> only the probe for
  \<^verbatim>\<open>apt\<close> fails; \<open>gentoo_host\<close> has a readable \<^verbatim>\<open>/etc/os-release\<close> naming a
  distribution outside the supported list, and a project folder whose
  \<^verbatim>\<open>.devsetup.json\<close> is the text \<open>devsetup_json\<close>, requiring Git; its
  \<open>json_parse\<close> and \<open>coerce_version\<close> are the library functions on the two texts that
  this host produces. No sample host writes a run of digits denoting \<open>2 ^ 53\<close> or
  more, so \<open>number_text\<close> is never consulted on them.
\<close>

definition quiet_reply :: exec_reply where
  "quiet_reply = \<lparr>exec_error = None, exec_stdout = [], exec_stderr = [], exec_data = []\<rparr>"

definition failed_reply :: exec_reply where
  "failed_reply =
     \<lparr>exec_error = Some (False, ''Command failed''), exec_stdout = [], exec_stderr = [],
      exec_data = []\<rparr>"

definition sample_host :: world where
  "sample_host =
     \<lparr>platform = Linux, exec_outcome = (\<lambda>h. quiet_reply), exec_returns = (\<lambda>h. True),
      date_now = (\<lambda>h. 1700000000000),
      terminal_data = (\<lambda>h. []), create_terminal = (\<lambda>h. 0), read_file = (\<lambda>h. Inl ''ENOENT''),
      dialog_choice = (\<lambda>h. None), workspaceFolders = None,
      path_join = (\<lambda>a b. a @ ''/'' @ b), json_parse = (\<lambda>c. SyntaxError),
      coerce_version = (\<lambda>v. None), number_text = (\<lambda>ds. ds)\<rparr>"

definition late_marker_host :: world where
  "late_marker_host =
     sample_host\<lparr>terminal_data := (\<lambda>h.
       [(0, ''Reading package lists...''),
        (0, [CHR 0x0D, CHR 0x0A] @ ''COMMAND_EXIT_CODE_1700000000000:1'' @ [CHR 0x0D, CHR 0x0A])])\<rparr>"

definition echo_host :: world where
  "echo_host =
     sample_host\<lparr>terminal_data := (\<lambda>h.
       [(0, ''true; echo COMMAND_EXIT_CODE_1700000000000:$?''),
        (0, ''COMMAND_EXIT_CODE_1700000000000:0'')])\<rparr>"

definition same_ms_host :: world where
  "same_ms_host = sample_host\<lparr>terminal_data := (\<lambda>h. [(0, ''COMMAND_EXIT_CODE_1700000000000:0'')])\<rparr>"

definition no_manager_host :: world where
  "no_manager_host = sample_host\<lparr>exec_outcome := (\<lambda>h. failed_reply)\<rparr>"

definition dnf_host :: world where
  "dnf_host =
     sample_host\<lparr>exec_outcome := (\<lambda>h.
       case rev h of
         Exec c # earlier \<Rightarrow> if c = ''command -v apt'' then failed_reply else quiet_reply
       | _ \<Rightarrow> quiet_reply)\<rparr>"

definition windows_failing_host :: world where
  "windows_failing_host = sample_host\<lparr>platform := Win32, exec_outcome := (\<lambda>h. failed_reply)\<rparr>"


definition install_git :: ActionStep where
  "install_git =
     \<lparr>dependency = git_requirement, action = INSTALL, reason = ''Git is not installed.''\<rparr>"

definition reinstall_node :: ActionStep where
  "reinstall_node =
     \<lparr>dependency = node_requirement, action = REINSTALL,
      reason = ''Node.js is installed at an incompatible version (16.2.0). Version ^18.17.0 is required.''\<rparr>"

definition devsetup_json :: string where
  "devsetup_json =
     ''{'' @ dq @ ''dependencies'' @ dq @ '':[{'' @
     dq @ ''id'' @ dq @ '':'' @ dq @ ''git'' @ dq @ '','' @
     dq @ ''name'' @ dq @ '':'' @ dq @ ''Git'' @ dq @ '','' @
     dq @ ''requiredVersion'' @ dq @ '':'' @ dq @ ''^2.40.0'' @ dq @ '','' @
     dq @ ''cliName'' @ dq @ '':'' @ dq @ ''git'' @ dq @ '','' @
     dq @ ''versionFlag'' @ dq @ '':'' @ dq @ ''--version'' @ dq @
     ''}]}''"

definition gentoo_host :: world where
  "gentoo_host =
     sample_host\<lparr>
       exec_outcome := (\<lambda>h. quiet_reply\<lparr>exec_stdout := ''git version 2.43.0'' @ [CHR 0x0A]\<rparr>),
       read_file := (\<lambda>h.
         case rev h of
           ReadFile p # earlier \<Rightarrow>
             if p = ''/etc/os-release'' then
               Inr (''NAME=Gentoo'' @ [CHR 0x0A] @ ''ID=gentoo'' @ [CHR 0x0A])
             else if p = ''/work/.devsetup.json'' then Inr devsetup_json
             else Inl ''ENOENT''
         | _ \<Rightarrow> Inl ''ENOENT''),
       workspaceFolders := Some [''/work''],
       json_parse := (\<lambda>c.
         if c = devsetup_json then Parsed (DependencyArray [Some git_requirement])
         else SyntaxError),
       coerce_version := (\<lambda>v.
         if v = ''git version 2.43.0'' @ [CHR 0x0A] then Some ''2.43.0'' else None)\<rparr>"

section \<open>Properties of the Planner\<close>

lemma foldl_push_map: "foldl (\<lambda>plan x. plan @ [f x]) acc xs = acc @ map f xs"
  by (induction xs arbitrary: acc) simp_all

lemma createActionPlan_map: "createActionPlan satisfies rs = map (determineAction satisfies) rs"
  by (simp add: createActionPlan_def foldl_push_map)

lemma determineAction_dependency: "dependency (determineAction satisfies r) = ar_dependency r"
  by (simp add: determineAction_def Let_def)

text \<open>
  C2. \<open>determineAction\<close> is a total function into the three actions (it has no error
  result): INSTALL exactly when the tool is not installed, ALREADY_MET exactly when it
  is installed with a version that is present and satisfies the required range,
  REINSTALL exactly when it is installed and the version is absent or outside the
  range; the INSTALL reason cites the absence and the REINSTALL reason cites the found
  version (or \<^verbatim>\<open>unknown\<close>) and the required range. The only fact used of the semver
  library is that the empty string satisfies no range.
\<close>

theorem determineAction_cases:
  assumes empty_version: "\<And>range. \<not> satisfies [] range"
  shows "(action (determineAction satisfies r) = INSTALL \<longleftrightarrow> \<not> isInstalled r)
       \<and> (action (determineAction satisfies r) = ALREADY_MET \<longleftrightarrow>
            isInstalled r \<and>
            (\<exists>v. installedVersion r = Some v \<and> satisfies v (requiredVersion (ar_dependency r))))
       \<and> (action (determineAction satisfies r) = REINSTALL \<longleftrightarrow>
            isInstalled r \<and>
            (installedVersion r = None \<or>
             (\<exists>v. installedVersion r = Some v \<and> \<not> satisfies v (requiredVersion (ar_dependency r)))))
       \<and> (action (determineAction satisfies r) = INSTALL \<longrightarrow>
            reason (determineAction satisfies r) = name (ar_dependency r) @ '' is not installed.'')
       \<and> (action (determineAction satisfies r) = REINSTALL \<longrightarrow>
            reason (determineAction satisfies r) =
              name (ar_dependency r) @ '' is installed at an incompatible version ('' @
              or_else (installedVersion r) ''unknown'' @ ''). Version '' @
              requiredVersion (ar_dependency r) @ '' is required.'')
       \<and> dependency (determineAction satisfies r) = ar_dependency r"
proof (cases "installedVersion r")
  case None
  then show ?thesis
    by (simp add: determineAction_def Let_def truthy_def or_else_def)
next
  case (Some v)
  show ?thesis
  proof (cases "v = []")
    case True
    with Some empty_version show ?thesis
      by (simp add: determineAction_def Let_def truthy_def or_else_def)
  next
    case False
    with Some show ?thesis
      by (simp add: determineAction_def Let_def truthy_def or_else_def)
  qed
qed

theorem determineAction_cases_witness:
  "action (determineAction satisfies_sample
      \<lparr>ar_dependency = node_requirement, isInstalled = True, installedVersion = Some ''18.20.2''\<rparr>)
     = ALREADY_MET
   \<and> action (determineAction satisfies_sample
      \<lparr>ar_dependency = node_requirement, isInstalled = True, installedVersion = Some ''16.2.0''\<rparr>)
     = REINSTALL
   \<and> reason (determineAction satisfies_sample
      \<lparr>ar_dependency = node_requirement, isInstalled = True, installedVersion = Some ''16.2.0''\<rparr>)
     = ''Node.js is installed at an incompatible version (16.2.0). Version ^18.17.0 is required.''
   \<and> reason (determineAction satisfies_sample
      \<lparr>ar_dependency = node_requirement, isInstalled = True, installedVersion = None\<rparr>)
     = ''Node.js is installed at an incompatible version (unknown). Version ^18.17.0 is required.''
   \<and> action (determineAction satisfies_sample
      \<lparr>ar_dependency = node_requirement, isInstalled = False, installedVersion = None\<rparr>)
     = INSTALL"
proof -
  have e: "\<And>range. \<not> satisfies_sample [] range"
    by (simp add: satisfies_sample_def)
  show ?thesis
    using determineAction_cases [of satisfies_sample
        "\<lparr>ar_dependency = node_requirement, isInstalled = True, installedVersion = Some ''18.20.2''\<rparr>", OF e]
      determineAction_cases [of satisfies_sample
        "\<lparr>ar_dependency = node_requirement, isInstalled = True, installedVersion = Some ''16.2.0''\<rparr>", OF e]
      determineAction_cases [of satisfies_sample
        "\<lparr>ar_dependency = node_requirement, isInstalled = True, installedVersion = None\<rparr>", OF e]
      determineAction_cases [of satisfies_sample
        "\<lparr>ar_dependency = node_requirement, isInstalled = False, installedVersion = None\<rparr>", OF e]
    by (simp add: satisfies_sample_def node_requirement_def or_else_def)
qed

text \<open>
  C7. The plan of \<open>createActionPlan\<close> has the length of the audit input, and its i-th
  step carries the dependency of the i-th audit result: the dependencies of the plan,
  read in order, are those of the input, none added and none left out.
\<close>

theorem createActionPlan_bijection:
  "length (createActionPlan satisfies rs) = length rs
   \<and> map dependency (createActionPlan satisfies rs) = map ar_dependency rs
   \<and> (\<forall>i < length rs. dependency (createActionPlan satisfies rs ! i) = ar_dependency (rs ! i))"
  by (simp add: createActionPlan_map determineAction_dependency)

theorem createActionPlan_bijection_witness:
  "length (createActionPlan satisfies_sample
      [\<lparr>ar_dependency = node_requirement, isInstalled = True, installedVersion = Some ''16.2.0''\<rparr>,
       \<lparr>ar_dependency = git_requirement, isInstalled = False, installedVersion = None\<rparr>]) = 2
   \<and> dependency (createActionPlan satisfies_sample
      [\<lparr>ar_dependency = node_requirement, isInstalled = True, installedVersion = Some ''16.2.0''\<rparr>,
       \<lparr>ar_dependency = git_requirement, isInstalled = False, installedVersion = None\<rparr>] ! 1)
     = git_requirement"
  using createActionPlan_bijection [of satisfies_sample
      "[\<lparr>ar_dependency = node_requirement, isInstalled = True, installedVersion = Some ''16.2.0''\<rparr>,
        \<lparr>ar_dependency = git_requirement, isInstalled = False, installedVersion = None\<rparr>]"]
  by simp

section \<open>Decimal numerals\<close>

lemma digit_char_is_digit: "d < 10 \<Longrightarrow> is_digit (digit_char d)"
proof -
  assume "d < 10"
  then have "d \<in> {0,1,2,3,4,5,6,7,8,9}" by auto
  then show ?thesis by (auto simp: is_digit_def digit_char_def)
qed

lemma digit_val_digit_char: "d < 10 \<Longrightarrow> digit_val (digit_char d) = d"
proof -
  assume "d < 10"
  then have "d \<in> {0,1,2,3,4,5,6,7,8,9}" by auto
  then show ?thesis by (auto simp: digit_val_def digit_char_def)
qed

lemma digits_all_digits: "\<forall>c \<in> set (digits n). is_digit c"
proof (induction n rule: digits.induct)
  case (1 n)
  show ?case
  proof (cases "n < 10")
    case True
    then show ?thesis by (subst digits.simps) (simp add: digit_char_is_digit)
  next
    case False
    with 1 show ?thesis by (subst digits.simps) (simp add: digit_char_is_digit)
  qed
qed

lemma digits_nonempty: "digits n \<noteq> []"
  by (subst digits.simps) simp

lemma parseInt_append: "parseInt (xs @ [c]) = 10 * parseInt xs + digit_val c"
  by (simp add: parseInt_def)

lemma parseInt_digits: "parseInt (digits n) = n"
proof (induction n rule: digits.induct)
  case (1 n)
  show ?case
  proof (cases "n < 10")
    case True
    then show ?thesis
      by (subst digits.simps) (simp add: parseInt_def digit_val_digit_char)
  next
    case False
    with 1 have "parseInt (digits (n div 10)) = n div 10" by simp
    with False show ?thesis
      by (subst digits.simps) (simp add: parseInt_append digit_val_digit_char)
  qed
qed

lemma digits_inj: "digits a = digits b \<Longrightarrow> a = b"
  by (metis parseInt_digits)

lemma minus_not_digit: "\<not> is_digit (CHR ''-'')"
  by (simp add: is_digit_def)

lemma digits_no_minus: "CHR ''-'' # xs \<noteq> digits n"
proof
  assume "CHR ''-'' # xs = digits n"
  then have "CHR ''-'' \<in> set (digits n)" by (metis list.set_intros(1))
  with digits_all_digits minus_not_digit show False by blast
qed

lemma string_of_int_inj: "string_of_int a = string_of_int b \<longleftrightarrow> a = b"
proof
  assume eq: "string_of_int a = string_of_int b"
  show "a = b"
  proof (cases "a < 0"; cases "b < 0")
    assume "a < 0" "b < 0"
    with eq have "nat (- a) = nat (- b)" by (simp add: string_of_int_def digits_inj)
    with \<open>a < 0\<close> \<open>b < 0\<close> show ?thesis by simp
  next
    assume "a < 0" "\<not> b < 0"
    with eq digits_no_minus show ?thesis by (simp add: string_of_int_def)
  next
    assume "\<not> a < 0" "b < 0"
    with eq digits_no_minus [of "digits (nat (- b))" "nat a"] show ?thesis
      by (simp add: string_of_int_def)
  next
    assume "\<not> a < 0" "\<not> b < 0"
    with eq have "nat a = nat b" by (simp add: string_of_int_def digits_inj)
    with \<open>\<not> a < 0\<close> \<open>\<not> b < 0\<close> show ?thesis by simp
  qed
qed simp

section \<open>Properties of the interactive command channel\<close>

lemma foldl_deliver_disposed:
  "\<not> subscribed p \<Longrightarrow> foldl (deliver render hint cid t) p es = p"
  by (induction es) (simp_all add: deliver_def)

lemma foldl_deliver_miss:
  "\<forall>e \<in> set es. \<not> (fst e = t \<and> sublist cid (snd e)) \<Longrightarrow> foldl (deliver render hint cid t) p es = p"
  by (induction es arbitrary: p) (auto simp: deliver_def on_terminal_data_def)

lemma await_terminal_first_hit:
  assumes "\<forall>e \<in> set pre. \<not> (fst e = t \<and> sublist cid (snd e))" and "sublist cid d"
  shows "await_terminal render hint cid t (pre @ (t, d) # post) =
           \<lparr>subscribed = False,
            outcome = (if exit_code cid d = 0 then Fulfilled
                       else Rejected (''Command failed with exit code '' @
                                      exit_code_text render cid d @ ''.'' @ hint))\<rparr>"
  using assms
  by (simp add: await_terminal_def foldl_deliver_miss foldl_deliver_disposed deliver_def
      on_terminal_data_def Let_def)

lemma exit_code_text_small:
  "exit_code cid d < 2 ^ 53 \<Longrightarrow> exit_code_text render cid d = string_of_int (exit_code cid d)"
proof (cases "regex_match cid d")
  case None
  then show ?thesis by (simp add: exit_code_text_def exit_code_def)
next
  case (Some ds)
  assume "exit_code cid d < 2 ^ 53"
  with Some have "int (parseInt ds) < 2 ^ 53" by (simp add: exit_code_def)
  then have "parseInt ds < 2 ^ 53" by (metis of_nat_less_iff of_nat_numeral of_nat_power)
  with Some show ?thesis by (simp add: exit_code_text_def exit_code_def)
qed

lemma exit_code_text_no_match:
  "regex_match cid d = None \<Longrightarrow> exit_code_text render cid d = ''-1''"
  by (simp add: exit_code_text_def string_of_int_def digits.simps digit_char_def)

lemma drop_prefix_append: "drop_prefix p (p @ s) = Some s"
  by (induction p) simp_all

lemma drop_prefix_hd: "p \<noteq> [] \<Longrightarrow> s \<noteq> [] \<Longrightarrow> hd p \<noteq> hd s \<Longrightarrow> drop_prefix p s = None"
  by (cases p; cases s) simp_all

lemma takeWhile_digits: "rest = [] \<or> \<not> is_digit (hd rest) \<Longrightarrow> takeWhile is_digit (digits n @ rest) = digits n"
  using digits_all_digits [of n]
  by (cases rest) (simp_all add: takeWhile_append2 takeWhile_append1)

lemma match_at_marker:
  "rest = [] \<or> \<not> is_digit (hd rest) \<Longrightarrow> match_at cid (cid @ '':'' @ digits n @ rest) = Some (digits n)"
  using drop_prefix_append [of "cid @ '':''" "digits n @ rest"]
  by (simp add: match_at_def takeWhile_digits digits_nonempty)

lemma regex_match_marker:
  assumes "cid \<noteq> []" "hd cid \<notin> set a" "rest = [] \<or> \<not> is_digit (hd rest)"
  shows "regex_match cid (a @ cid @ '':'' @ digits n @ rest) = Some (digits n)"
  using assms
proof (induction a)
  case Nil
  then obtain c cs where "cid = c # cs" by (cases cid) auto
  with Nil match_at_marker [of rest cid n] show ?case by simp
next
  case (Cons x a)
  then have "drop_prefix (cid @ '':'') (x # a @ cid @ '':'' @ digits n @ rest) = None"
    by (intro drop_prefix_hd) auto
  with Cons show ?case by (simp add: match_at_def)
qed

lemma exit_code_marker:
  assumes "cid \<noteq> []" "hd cid \<notin> set a" "rest = [] \<or> \<not> is_digit (hd rest)"
  shows "exit_code cid (a @ cid @ '':'' @ digits n @ rest) = int n"
  using regex_match_marker [OF assms] by (simp add: exit_code_def parseInt_digits)

lemma commandId_nonempty: "commandId_at w h \<noteq> []" "hd (commandId_at w h) = CHR ''C''"
  by (simp_all add: commandId_at_def)


text \<open>
  C5. When the first data event of the command's terminal that contains the token
  arrives (earlier events of the run not containing it), \<open>runCommandInTerminal\<close>
  settles from that event alone and its listener is unsubscribed: the promise is
  fulfilled if and only if the exit code read from the event is 0, and is otherwise
  rejected with a message carrying the code as JavaScript prints it, which below
  \<open>2 ^ 53\<close> is its decimal numeral. Where the event reads \<open>token:digits\<close> after text
  without the letter C (the token's first character), the code is the number the
  digits denote. The instance that follows is a marker with exit code 1 arriving in a
  second, separately delivered event.
\<close>

theorem runCommandInTerminal_exit_code:
  assumes data: "terminal_data w (history (snd (runCommandInTerminal w s command t))) = pre @ (t, d) # post"
    and miss: "\<forall>e \<in> set pre. \<not> (fst e = t \<and> sublist (commandId_at w (history s)) (snd e))"
    and hit: "sublist (commandId_at w (history s)) d"
  shows "fst (runCommandInTerminal w s command t) =
           (if exit_code (commandId_at w (history s)) d = 0 then Fulfilled
            else Rejected (''Command failed with exit code '' @
                           exit_code_text (number_text w) (commandId_at w (history s)) d @ ''.''))
       \<and> (exit_code (commandId_at w (history s)) d < 2 ^ 53 \<longrightarrow>
            exit_code_text (number_text w) (commandId_at w (history s)) d =
              string_of_int (exit_code (commandId_at w (history s)) d))
       \<and> \<not> subscribed (await_terminal (number_text w) [] (commandId_at w (history s)) t
                          (pre @ (t, d) # post))
       \<and> (\<forall>a n rest. d = a @ commandId_at w (history s) @ '':'' @ digits n @ rest
             \<and> n < 2 ^ 53 \<and> CHR ''C'' \<notin> set a \<and> (rest = [] \<or> \<not> is_digit (hd rest)) \<longrightarrow>
             fst (runCommandInTerminal w s command t) =
               (if n = 0 then Fulfilled
                else Rejected (''Command failed with exit code '' @ digits n @ ''.'')))"
proof -
  let ?cid = "commandId_at w (history s)"
  have run: "fst (runCommandInTerminal w s command t) =
      outcome (await_terminal (number_text w) [] ?cid t (pre @ (t, d) # post))"
    using data by (simp add: runCommandInTerminal_def Let_def)
  note first = await_terminal_first_hit [OF miss hit, of "number_text w" "[]" post]
  have a: "fst (runCommandInTerminal w s command t) =
           (if exit_code ?cid d = 0 then Fulfilled
            else Rejected (''Command failed with exit code '' @
                           exit_code_text (number_text w) ?cid d @ ''.''))"
    by (simp add: run first)
  have small: "exit_code_text (number_text w) ?cid d = string_of_int (exit_code ?cid d)"
    if "exit_code ?cid d < 2 ^ 53"
    using that by (rule exit_code_text_small)
  have b: "\<not> subscribed (await_terminal (number_text w) [] ?cid t (pre @ (t, d) # post))"
    by (simp add: first)
  have c: "fst (runCommandInTerminal w s command t) =
               (if n = 0 then Fulfilled
                else Rejected (''Command failed with exit code '' @ digits n @ ''.''))"
    if "d = a @ ?cid @ '':'' @ digits n @ rest" "n < 2 ^ 53" "CHR ''C'' \<notin> set a"
       "rest = [] \<or> \<not> is_digit (hd rest)" for a n rest
  proof -
    have code: "exit_code ?cid d = int n"
      using that exit_code_marker [of ?cid a rest n] commandId_nonempty [of w "history s"]
      by simp
    with that(2) have "exit_code ?cid d < 2 ^ 53"
      by (metis of_nat_less_iff of_nat_numeral of_nat_power)
    from small [OF this] code show ?thesis by (simp add: a string_of_int_def)
  qed
  from a small b c show ?thesis by blast
qed

theorem runCommandInTerminal_exit_code_witness:
  "fst (runCommandInTerminal late_marker_host module_loaded ''exit 1'' 0) =
     Rejected ''Command failed with exit code 1.''"
proof -
  have cid: "commandId_at late_marker_host (history module_loaded) = ''COMMAND_EXIT_CODE_1700000000000''"
    by (simp add: commandId_at_def late_marker_host_def sample_host_def string_of_int_def
        digits.simps digit_char_def)
  have data: "terminal_data late_marker_host
        (history (snd (runCommandInTerminal late_marker_host module_loaded ''exit 1'' 0))) =
      [(0, ''Reading package lists...'')] @
      (0, [CHR 0x0D, CHR 0x0A] @ ''COMMAND_EXIT_CODE_1700000000000:1'' @ [CHR 0x0D, CHR 0x0A]) # []"
    by (simp add: late_marker_host_def sample_host_def)
  have miss: "\<forall>e \<in> set [(0::nat, ''Reading package lists...'')].
      \<not> (fst e = 0 \<and> sublist (commandId_at late_marker_host (history module_loaded)) (snd e))"
    by (simp add: cid sublist_code)
  have hit: "sublist (commandId_at late_marker_host (history module_loaded))
      ([CHR 0x0D, CHR 0x0A] @ ''COMMAND_EXIT_CODE_1700000000000:1'' @ [CHR 0x0D, CHR 0x0A])"
    by (simp add: cid sublist_code)
  have code: "exit_code ''COMMAND_EXIT_CODE_1700000000000''
      ([CHR 0x0D, CHR 0x0A] @ ''COMMAND_EXIT_CODE_1700000000000:1'' @ [CHR 0x0D, CHR 0x0A]) = 1"
    by (simp add: exit_code_def match_at_def is_digit_def parseInt_def digit_val_def)
  have one: "string_of_int 1 = ''1''"
    by (simp add: string_of_int_def digits.simps digit_char_def)
  from runCommandInTerminal_exit_code [OF data miss hit]
  have "fst (runCommandInTerminal late_marker_host module_loaded ''exit 1'' 0) =
           (if exit_code (commandId_at late_marker_host (history module_loaded))
                 ([CHR 0x0D, CHR 0x0A] @ ''COMMAND_EXIT_CODE_1700000000000:1'' @ [CHR 0x0D, CHR 0x0A]) = 0
            then Fulfilled
            else Rejected (''Command failed with exit code '' @
                   string_of_int (exit_code (commandId_at late_marker_host (history module_loaded))
                     ([CHR 0x0D, CHR 0x0A] @ ''COMMAND_EXIT_CODE_1700000000000:1'' @
                      [CHR 0x0D, CHR 0x0A])) @ ''.''))"
    unfolding cid code by simp
  then show ?thesis
    unfolding cid code one by simp
qed

text \<open>
  C10. If the first data event that contains the token does not contain the pattern
  \<open>token:digits\<close>, the exit code is taken to be -1, the listener is disposed and the
  promise is rejected with exit code -1, in the Executor's \<open>runCommandInTerminal\<close> and
  in the Auditor's \<open>runCommandInTerminalAndWait\<close> alike; the events after it, whatever
  they contain, do not change the outcome. The instance that follows is a terminal that echoes the
  command line before the command's own marker arrives.
\<close>

theorem marker_without_digits:
  assumes miss: "\<forall>e \<in> set pre. \<not> (fst e = t \<and> sublist cid (snd e))"
    and hit: "sublist cid d"
    and nomatch: "regex_match cid d = None"
  shows "await_terminal render hint cid t (pre @ (t, d) # post) =
           \<lparr>subscribed = False, outcome = Rejected (''Command failed with exit code -1.'' @ hint)\<rparr>
       \<and> await_terminal render hint cid t (pre @ (t, d) # post) =
           await_terminal render hint cid t (pre @ [(t, d)])
       \<and> (cid = commandId_at w (history s) \<and>
          terminal_data w (history (snd (runCommandInTerminal w s command t))) = pre @ (t, d) # post \<longrightarrow>
          fst (runCommandInTerminal w s command t) = Rejected ''Command failed with exit code -1.'')
       \<and> (cid = commandId_at w (h @ [AppendLine (''[Auditor] > Sending to terminal: '' @ command)]) \<and>
          terminal_data w (snd (runCommandInTerminalAndWait w h t command)) = pre @ (t, d) # post \<longrightarrow>
          fst (runCommandInTerminalAndWait w h t command) =
            Rejected ''Command failed with exit code -1. Please check the terminal for details.'')"
proof -
  have code: "exit_code cid d = - 1"
    using nomatch by (simp add: exit_code_def)
  have m1: "exit_code_text render' cid d = ''-1''" for render'
    using nomatch by (rule exit_code_text_no_match)
  have first: "await_terminal render' hint' cid t (pre @ (t, d) # post') =
      \<lparr>subscribed = False, outcome = Rejected (''Command failed with exit code -1.'' @ hint')\<rparr>"
    for render' hint' post'
    using await_terminal_first_hit [OF miss hit, of render' hint' post'] by (simp add: code m1)
  have a: "await_terminal render hint cid t (pre @ (t, d) # post) =
      \<lparr>subscribed = False, outcome = Rejected (''Command failed with exit code -1.'' @ hint)\<rparr>"
    by (rule first)
  have b: "await_terminal render hint cid t (pre @ (t, d) # post) =
      await_terminal render hint cid t (pre @ [(t, d)])"
    by (simp add: first)
  have c: "fst (runCommandInTerminal w s command t) = Rejected ''Command failed with exit code -1.''"
    if "cid = commandId_at w (history s)"
       "terminal_data w (history (snd (runCommandInTerminal w s command t))) = pre @ (t, d) # post"
    using that first [of "number_text w" "[]" post] by (simp add: runCommandInTerminal_def Let_def)
  have e: "fst (runCommandInTerminalAndWait w h t command) =
            Rejected ''Command failed with exit code -1. Please check the terminal for details.''"
    if "cid = commandId_at w (h @ [AppendLine (''[Auditor] > Sending to terminal: '' @ command)])"
       "terminal_data w (snd (runCommandInTerminalAndWait w h t command)) = pre @ (t, d) # post"
    using that first [of "number_text w" "'' Please check the terminal for details.''" post]
    by (simp add: runCommandInTerminalAndWait_def Let_def)
  from a b c e show ?thesis by blast
qed

theorem marker_without_digits_witness:
  "fst (runCommandInTerminal echo_host module_loaded ''true'' 0) =
     Rejected ''Command failed with exit code -1.''
   \<and> fst (runCommandInTerminalAndWait echo_host [] 0 ''true'') =
     Rejected ''Command failed with exit code -1. Please check the terminal for details.''"
proof -
  let ?cid = "''COMMAND_EXIT_CODE_1700000000000''"
  let ?d = "''true; echo COMMAND_EXIT_CODE_1700000000000:$?''"
  let ?post = "[(0::nat, ''COMMAND_EXIT_CODE_1700000000000:0'')]"
  have cid1: "?cid = commandId_at echo_host (history module_loaded)"
    by (simp add: commandId_at_def echo_host_def sample_host_def string_of_int_def
        digits.simps digit_char_def)
  have cid2: "?cid = commandId_at echo_host ([] @ [AppendLine (''[Auditor] > Sending to terminal: '' @ ''true'')])"
    by (simp add: commandId_at_def echo_host_def sample_host_def string_of_int_def
        digits.simps digit_char_def)
  have data1: "terminal_data echo_host
        (history (snd (runCommandInTerminal echo_host module_loaded ''true'' 0))) = [] @ (0, ?d) # ?post"
    by (simp add: echo_host_def sample_host_def)
  have data2: "terminal_data echo_host
        (snd (runCommandInTerminalAndWait echo_host [] 0 ''true'')) = [] @ (0, ?d) # ?post"
    by (simp add: echo_host_def sample_host_def)
  have miss: "\<forall>e \<in> set []. \<not> (fst e = (0::nat) \<and> sublist ?cid (snd e))"
    by simp
  have hit: "sublist ?cid ?d"
    by (simp add: sublist_code)
  have nomatch: "regex_match ?cid ?d = None"
    by (simp add: match_at_def is_digit_def)
  from marker_without_digits [OF miss hit nomatch, where render = "number_text echo_host"
      and hint = "[]" and post = ?post and w = echo_host and s = module_loaded
      and command = "''true''" and h = "[]"]
    cid1 cid2 data1 data2
  show ?thesis by simp
qed

text \<open>
  C4 (as amended). The token is computed at each call from the reading of the clock at
  that call; the tokens of two calls are equal exactly when the two readings are
  equal.
\<close>

theorem commandId_fresh_iff:
  "commandId_at w h1 = commandId_at w h2 \<longleftrightarrow> date_now w h1 = date_now w h2"
  by (simp add: commandId_at_def string_of_int_inj)

text \<open>
  C4, counterexample. On a host whose clock shows the same millisecond at both calls,
  the first interactive command completes and the second call, made from the history
  that the first one left, computes the token of the first.
\<close>

theorem commandId_repeats:
  "fst (runCommandInTerminal same_ms_host module_loaded ''true'' 0) = Fulfilled
   \<and> history (snd (runCommandInTerminal same_ms_host module_loaded ''true'' 0)) =
       [SendText 0 ''true; echo COMMAND_EXIT_CODE_1700000000000:$?'']
   \<and> commandId_at same_ms_host (history module_loaded) = ''COMMAND_EXIT_CODE_1700000000000''
   \<and> commandId_at same_ms_host (history (snd (runCommandInTerminal same_ms_host module_loaded ''true'' 0)))
     = ''COMMAND_EXIT_CODE_1700000000000''"
proof -
  have cid: "commandId_at same_ms_host h = ''COMMAND_EXIT_CODE_1700000000000''" for h
    by (simp add: commandId_at_def same_ms_host_def sample_host_def string_of_int_def
        digits.simps digit_char_def)
  have hist: "history (snd (runCommandInTerminal same_ms_host module_loaded ''true'' 0)) =
       [SendText 0 ''true; echo COMMAND_EXIT_CODE_1700000000000:$?'']"
    by (simp add: runCommandInTerminal_def Let_def cid emit_def module_loaded_def)
  have code: "exit_code ''COMMAND_EXIT_CODE_1700000000000'' ''COMMAND_EXIT_CODE_1700000000000:0'' = 0"
    by (simp add: exit_code_def match_at_def is_digit_def parseInt_def digit_val_def)
  have hit: "sublist ''COMMAND_EXIT_CODE_1700000000000'' ''COMMAND_EXIT_CODE_1700000000000:0''"
    by (simp add: sublist_code)
  have "await_terminal (number_text same_ms_host) [] ''COMMAND_EXIT_CODE_1700000000000'' 0
          ([] @ (0, ''COMMAND_EXIT_CODE_1700000000000:0'') # []) =
        \<lparr>subscribed = False, outcome = Fulfilled\<rparr>"
    by (subst await_terminal_first_hit) (simp_all add: hit code)
  moreover have "terminal_data same_ms_host h = [(0, ''COMMAND_EXIT_CODE_1700000000000:0'')]" for h
    by (simp add: same_ms_host_def sample_host_def)
  ultimately have run: "fst (runCommandInTerminal same_ms_host module_loaded ''true'' 0) = Fulfilled"
    by (simp add: runCommandInTerminal_def Let_def cid)
  from run hist cid show ?thesis by simp
qed

section \<open>Properties of the Executor\<close>

lemma emit_simps [simp]:
  "history (emit e s) = history s @ [e]"
  "detectedPackageManager (emit e s) = detectedPackageManager s"
  "pm_assignments (emit e s) = pm_assignments s"
  by (simp_all add: emit_def)

lemma send_if_simps [simp]:
  "history (send_if (Some t) x s) = history s @ [SendText t x]"
  "history (send_if None x s) = history s"
  "detectedPackageManager (send_if tm x s) = detectedPackageManager s"
  "pm_assignments (send_if tm x s) = pm_assignments s"
  by (simp_all add: send_if_def split: option.splits)

lemma extends_refl [simp]: "extends s s"
  by (simp add: extends_def)

lemma extends_trans: "extends a b \<Longrightarrow> extends b c \<Longrightarrow> extends a c"
  by (auto simp: extends_def intro: prefix_order.trans)

lemma extends_emit [simp]: "extends s (emit e s)"
  by (simp add: extends_def)

lemma extends_emit_left: "extends (emit e s) s' \<Longrightarrow> extends s s'"
  by (rule extends_trans [OF extends_emit])

lemma extends_send_if [simp]: "extends s (send_if tm x s)"
  by (cases tm) (simp_all add: extends_def)

lemma foldl_append_history:
  "history (foldl (\<lambda>st d. emit (Append d) st) s ds) = history s @ map Append ds"
  by (induction ds arbitrary: s) simp_all

lemma foldl_append_pm:
  "detectedPackageManager (foldl (\<lambda>st d. emit (Append d) st) s ds) = detectedPackageManager s"
  "pm_assignments (foldl (\<lambda>st d. emit (Append d) st) s ds) = pm_assignments s"
  by (induction ds arbitrary: s) simp_all

lemma runCommandSilently_history:
  "history (snd (runCommandSilently w s c)) =
     history s @ [AppendLine (''[Executor] > Running silently: '' @ c), Exec c] @
     map Append (exec_data (exec_outcome w
        (history s @ [AppendLine (''[Executor] > Running silently: '' @ c), Exec c])))"
  by (simp add: runCommandSilently_def Let_def foldl_append_history)

lemma runCommandSilently_result:
  "fst (runCommandSilently w s c) =
     (case exec_error (exec_outcome w
             (history s @ [AppendLine (''[Executor] > Running silently: '' @ c), Exec c])) of
        None \<Rightarrow> Fulfilled
      | Some (killed, message) \<Rightarrow>
          Rejected (if killed then ''Command timed out after 10 minutes.'' else message))"
  by (simp add: runCommandSilently_def Let_def)

lemma runCommandSilently_settles: "fst (runCommandSilently w s c) \<noteq> Pending"
  by (simp add: runCommandSilently_result split: option.splits prod.splits)

lemma runCommandSilently_extends: "extends s (snd (runCommandSilently w s c))"
  by (simp add: extends_def runCommandSilently_history)
     (simp add: runCommandSilently_def Let_def foldl_append_pm)

lemma runCommandInTerminal_extends: "extends s (snd (runCommandInTerminal w s c t))"
  by (simp add: runCommandInTerminal_def Let_def)

lemma runCommand_extends: "extends s (snd (runCommand w s c tm))"
  by (simp add: runCommand_def runCommandSilently_extends runCommandInTerminal_extends
      split: option.splits)

lemma runCommand_settles:
  assumes "\<And>s c t. tm = Some t \<Longrightarrow> fst (runCommandInTerminal w s c t) \<noteq> Pending"
  shows "fst (runCommand w s c tm) \<noteq> Pending"
  using assms by (cases tm) (simp_all add: runCommand_def runCommandSilently_settles)

lemma installDependency_extends:
  "extends (emit (AppendLine (install_start (dependency step))) s)
     (snd (installDependency w s step tm))"
  by (simp add: installDependency_def Let_def runCommand_extends split: option.splits)

lemma uninstallDependency_extends:
  "extends (emit (AppendLine (uninstall_start (dependency step))) s)
     (snd (uninstallDependency w s step tm))"
  by (simp add: uninstallDependency_def Let_def runCommand_extends split: option.splits)

lemma installDependency_settles:
  assumes "\<And>s c t. tm = Some t \<Longrightarrow> fst (runCommandInTerminal w s c t) \<noteq> Pending"
  shows "fst (installDependency w s step tm) \<noteq> Pending"
  using runCommand_settles [where tm = tm and w = w, OF assms]
  by (simp add: installDependency_def Let_def split: option.splits)

lemma uninstallDependency_settles:
  assumes "\<And>s c t. tm = Some t \<Longrightarrow> fst (runCommandInTerminal w s c t) \<noteq> Pending"
  shows "fst (uninstallDependency w s step tm) \<noteq> Pending"
  using runCommand_settles [where tm = tm and w = w, OF assms]
  by (simp add: uninstallDependency_def Let_def split: option.splits)

lemma step_body_extends:
  "extends (emit (step_announcement step) s) (snd (step_body w s step tm))"
proof (cases "action step")
  case INSTALL
  then show ?thesis
    by (simp add: step_body_def step_announcement_def installDependency_extends)
next
  case REINSTALL
  have "extends (emit (AppendLine (uninstall_start (dependency step))) s)
      (snd (installDependency w (snd (uninstallDependency w s step tm)) step tm))"
    by (rule extends_trans [OF uninstallDependency_extends
          extends_emit_left [OF installDependency_extends]])
  with REINSTALL show ?thesis
    by (simp add: step_body_def step_announcement_def uninstallDependency_extends
        case_prod_beta)
next
  case ALREADY_MET
  then show ?thesis
    by (simp add: step_body_def step_announcement_def)
qed

lemma step_body_settles:
  assumes "\<And>s c t. tm = Some t \<Longrightarrow> fst (runCommandInTerminal w s c t) \<noteq> Pending"
  shows "fst (step_body w s step tm) \<noteq> Pending"
  using installDependency_settles [where tm = tm and w = w, OF assms]
    uninstallDependency_settles [where tm = tm and w = w, OF assms]
  by (cases "action step") (simp_all add: step_body_def case_prod_beta)

lemma run_step_extends:
  "extends (emit (step_announcement step) s) (snd (run_step w s step tm))"
proof -
  obtain r s1 where b: "step_body w s step tm = (r, s1)" by (cases "step_body w s step tm")
  with step_body_extends [of step s w tm]
  have e: "extends (emit (step_announcement step) s) s1" by simp
  show ?thesis
  proof (cases r)
    case (Rejected err)
    have "extends s1 (send_if tm
             (''echo '' @ dq @ backslash_n @ ''[ERROR] '' @ failed_message (dependency step) @
              backslash_n @ dq)
             (emit (AppendLine (failed_message (dependency step))) s1))"
      by (rule extends_trans [OF extends_emit extends_send_if])
    with e b Rejected show ?thesis
      by (simp add: run_step_def) (rule extends_trans)
  qed (use e b in \<open>simp_all add: run_step_def\<close>)
qed

lemma run_step_fulfilled:
  assumes "\<And>s c t. tm = Some t \<Longrightarrow> fst (runCommandInTerminal w s c t) \<noteq> Pending"
  shows "fst (run_step w s step tm) = Fulfilled"
  using step_body_settles [where tm = tm and w = w and s = s and step = step, OF assms]
  by (simp add: run_step_def case_prod_beta split: completion.splits)

lemma run_steps_fulfilled:
  assumes "\<And>s c t. tm = Some t \<Longrightarrow> fst (runCommandInTerminal w s c t) \<noteq> Pending"
  shows "fst (run_steps w s plan tm) = Fulfilled"
proof (induction plan arbitrary: s)
  case Nil
  show ?case by simp
next
  case (Cons step rest)
  from run_step_fulfilled [where tm = tm and w = w and s = s and step = step, OF assms] Cons show ?case
    by (simp add: case_prod_beta)
qed

lemma run_steps_extends: "extends s (snd (run_steps w s plan tm))"
proof (induction plan arbitrary: s)
  case Nil
  show ?case by simp
next
  case (Cons step rest)
  have "extends s (snd (run_step w s step tm))"
    by (rule extends_emit_left [OF run_step_extends])
  with Cons [of "snd (run_step w s step tm)"] show ?case
    by (auto simp: case_prod_beta intro: extends_trans)
qed



lemma detect_loop_fulfilled: "fst (detect_loop w s ms) = Fulfilled"
proof (induction ms arbitrary: s)
  case Nil
  show ?case by simp
next
  case (Cons m ms)
  with runCommandSilently_settles [of w s "''command -v '' @ pm_name m"] show ?case
    by (simp add: case_prod_beta split: completion.splits)
qed

lemma detectLinuxPackageManager_fulfilled: "fst (detectLinuxPackageManager w s) = Fulfilled"
  by (simp add: detectLinuxPackageManager_def detect_loop_fulfilled del: detect_loop.simps)

lemma assign_pm_simps [simp]:
  "detectedPackageManager (assign_pm m s) = Some m"
  "pm_assignments (assign_pm m s) = Suc (pm_assignments s)"
  "history (assign_pm m s) = history s"
  by (simp_all add: assign_pm_def)

lemma detect_loop_ok:
  "fst (runCommandSilently w s (''command -v '' @ pm_name m)) = Fulfilled \<Longrightarrow>
   detect_loop w s (m # ms) =
     (Fulfilled, assign_pm m (emit (AppendLine (''[Executor] Detected: '' @ pm_name m))
                    (snd (runCommandSilently w s (''command -v '' @ pm_name m)))))"
  by (simp add: case_prod_beta)

lemma detect_loop_next:
  "fst (runCommandSilently w s (''command -v '' @ pm_name m)) = Rejected err \<Longrightarrow>
   detect_loop w s (m # ms) =
     detect_loop w (snd (runCommandSilently w s (''command -v '' @ pm_name m))) ms"
  by (simp add: case_prod_beta)

lemma detect_loop_assigns:
  "detectedPackageManager (snd (detect_loop w s ms)) \<noteq> None \<and>
   pm_assignments (snd (detect_loop w s ms)) = Suc (pm_assignments s)"
proof (induction ms arbitrary: s)
  case Nil
  show ?case by simp
next
  case (Cons m ms)
  let ?p = "runCommandSilently w s (''command -v '' @ pm_name m)"
  have keep: "pm_assignments (snd ?p) = pm_assignments s"
    using runCommandSilently_extends [of s w "''command -v '' @ pm_name m"]
    by (simp add: extends_def)
  show ?case
  proof (cases "fst ?p")
    case Fulfilled
    with keep show ?thesis by (simp add: detect_loop_ok del: detect_loop.simps)
  next
    case (Rejected err)
    with Cons [of "snd ?p"] keep show ?thesis
      by (simp add: detect_loop_next del: detect_loop.simps)
  next
    case Pending
    with runCommandSilently_settles [of w s] show ?thesis by simp
  qed
qed

lemma probe_found:
  assumes "\<forall>h. exec_error (exec_outcome w (h @ [Exec c])) = None"
  shows "fst (runCommandSilently w s c) = Fulfilled"
  using assms [rule_format, of "history s @ [AppendLine (''[Executor] > Running silently: '' @ c)]"]
  by (simp add: runCommandSilently_result)

lemma probe_missing:
  assumes "\<forall>h. exec_error (exec_outcome w (h @ [Exec c])) \<noteq> None"
  shows "\<exists>err. fst (runCommandSilently w s c) = Rejected err"
  using assms [rule_format, of "history s @ [AppendLine (''[Executor] > Running silently: '' @ c)]"]
  by (auto simp: runCommandSilently_result split: option.splits)

lemma getInstallCommand_unknown: "getInstallCommand (Some Unknown) Linux dep = None"
  by (simp add: getInstallCommand_def split: option.splits)

lemma getUninstallCommand_unknown: "getUninstallCommand (Some Unknown) Linux dep = None"
  by (simp add: getUninstallCommand_def split: option.splits)

lemma installDependency_unknown:
  assumes "platform w = Linux" "detectedPackageManager s = Some Unknown"
  shows "installDependency w s step tm =
     (Rejected (no_install_command (dependency step)),
      emit (ShowErrorMessage (no_install_command (dependency step)))
        (emit (AppendLine (install_start (dependency step))) s))"
  using assms by (simp add: installDependency_def Let_def getInstallCommand_unknown)

lemma uninstallDependency_unknown:
  assumes "platform w = Linux" "detectedPackageManager s = Some Unknown"
  shows "uninstallDependency w s step tm =
     (Rejected (no_uninstall_command (dependency step)),
      emit (ShowErrorMessage (no_uninstall_command (dependency step)))
        (emit (AppendLine (uninstall_start (dependency step))) s))"
  using assms by (simp add: uninstallDependency_def Let_def getUninstallCommand_unknown)

lemma run_step_unknown:
  assumes "platform w = Linux" "detectedPackageManager s = Some Unknown"
  shows "fst (run_step w s step (Some t)) = Fulfilled \<and>
         history (snd (run_step w s step (Some t))) = history s @ no_command_events t step"
  using assms
  by (cases "action step")
     (simp_all add: run_step_def step_body_def installDependency_unknown
        uninstallDependency_unknown no_command_events_def)

lemma run_steps_unknown:
  assumes "platform w = Linux" "detectedPackageManager s = Some Unknown"
  shows "fst (run_steps w s plan (Some t)) = Fulfilled \<and>
         history (snd (run_steps w s plan (Some t))) =
           history s @ concat (map (no_command_events t) plan)"
  using assms(2)
proof (induction plan arbitrary: s)
  case Nil
  show ?case by simp
next
  case (Cons step rest)
  let ?s1 = "snd (run_step w s step (Some t))"
  from run_step_unknown [OF assms(1) Cons.prems, of step t]
  have f: "fst (run_step w s step (Some t)) = Fulfilled"
    and h: "history ?s1 = history s @ no_command_events t step" by simp_all
  have "detectedPackageManager ?s1 = Some Unknown"
    using extends_emit_left [OF run_step_extends [of step s w "Some t"]] Cons.prems
    by (simp add: extends_def)
  from Cons.IH [OF this] f h show ?case
    by (simp add: case_prod_beta)
qed

lemma finish_simps [simp]:
  "history (finish (Some t) s) = history s @ [AppendLine finished_line, SendText t success_text]"
  "history (finish None s) = history s @ [AppendLine finished_line]"
  "detectedPackageManager (finish tm s) = detectedPackageManager s"
  "pm_assignments (finish tm s) = pm_assignments s"
  by (simp_all add: finish_def)

lemma open_terminal_extends: "extends s (snd (open_terminal w s))"
  by (simp add: open_terminal_def Let_def extends_def)

lemma executePlan_linux:
  assumes "platform w = Linux"
    and "fst (run_steps w (detection_state w s plan) plan (Some (plan_terminal w s plan))) = Fulfilled"
  shows "executePlan w s plan =
     (Fulfilled, finish (Some (plan_terminal w s plan))
        (snd (run_steps w (detection_state w s plan) plan (Some (plan_terminal w s plan)))))"
  using assms
  by (simp add: executePlan_def Let_def case_prod_beta detectLinuxPackageManager_fulfilled
      plan_terminal_def detection_state_def)

lemma executePlan_linux_state:
  assumes "platform w = Linux"
  shows "extends (detection_state w s plan) (snd (executePlan w s plan))"
proof -
  let ?t = "Some (plan_terminal w s plan)"
  let ?r = "run_steps w (detection_state w s plan) plan ?t"
  have e: "extends (detection_state w s plan) (snd ?r)" by (rule run_steps_extends)
  have "snd (executePlan w s plan) = (if fst ?r = Fulfilled then finish ?t (snd ?r) else snd ?r)"
    using assms
    by (simp add: executePlan_def Let_def case_prod_beta detectLinuxPackageManager_fulfilled
        plan_terminal_def detection_state_def)
  with e show ?thesis by (auto simp: extends_def finish_def)
qed

lemma executePlan_other:
  assumes "platform w \<noteq> Linux"
  shows "executePlan w s plan =
     (Fulfilled, finish None (snd (run_steps w (emit (AppendLine (plan_start plan)) s) plan None)))"
proof -
  have "fst (run_steps w (emit (AppendLine (plan_start plan)) s) plan None) = Fulfilled"
    by (rule run_steps_fulfilled) simp
  with assms show ?thesis
    by (simp add: executePlan_def Let_def case_prod_beta)
qed





lemma detectLinuxPackageManager_cached:
  "detectedPackageManager s = Some m \<Longrightarrow> detectLinuxPackageManager w s = (Fulfilled, s)"
  by (simp add: detectLinuxPackageManager_def)

lemma detectLinuxPackageManager_assigns:
  "detectedPackageManager s = None \<Longrightarrow>
   detectedPackageManager (snd (detectLinuxPackageManager w s)) \<noteq> None \<and>
   pm_assignments (snd (detectLinuxPackageManager w s)) = Suc (pm_assignments s)"
  using detect_loop_assigns
    [of w "emit (AppendLine ''[Executor] Detecting Linux package manager...'') s" "[Apt, Dnf, Pacman]"]
  by (simp add: detectLinuxPackageManager_def del: detect_loop.simps)

lemma detection_state_pm:
  "(detectedPackageManager s = Some m \<longrightarrow>
      detectedPackageManager (detection_state w s plan) = Some m \<and>
      pm_assignments (detection_state w s plan) = pm_assignments s)
   \<and> (detectedPackageManager s = None \<longrightarrow>
      detectedPackageManager (detection_state w s plan) \<noteq> None \<and>
      pm_assignments (detection_state w s plan) = Suc (pm_assignments s))"
proof -
  let ?s2 = "snd (open_terminal w (emit (AppendLine (plan_start plan)) s))"
  have keep: "detectedPackageManager ?s2 = detectedPackageManager s"
             "pm_assignments ?s2 = pm_assignments s"
    using open_terminal_extends [of "emit (AppendLine (plan_start plan)) s" w]
    by (simp_all add: extends_def)
  show ?thesis
    using keep detectLinuxPackageManager_assigns [of ?s2 w]
    by (auto simp: detection_state_def detectLinuxPackageManager_cached)
qed

text \<open>
  C3 (as amended). The cached package manager is unresolved when the module is loaded,
  and \<open>executePlan\<close> never resets it. A run that starts with a resolved value keeps
  that value and assigns nothing. A run on Linux that starts unresolved assigns the
  variable exactly once, during detection and before the first step, and ends with the
  value detection gave. A run on any other platform that starts unresolved leaves it
  unresolved. The step loop never assigns the variable, from whatever state it starts.
\<close>

theorem package_manager_cache:
  "(detectedPackageManager s = Some m \<longrightarrow>
      detectedPackageManager (snd (executePlan w s plan)) = Some m \<and>
      pm_assignments (snd (executePlan w s plan)) = pm_assignments s)
   \<and> (detectedPackageManager s = None \<and> platform w = Linux \<longrightarrow>
      detectedPackageManager (detection_state w s plan) \<noteq> None \<and>
      pm_assignments (detection_state w s plan) = Suc (pm_assignments s) \<and>
      detectedPackageManager (snd (executePlan w s plan)) =
        detectedPackageManager (detection_state w s plan) \<and>
      pm_assignments (snd (executePlan w s plan)) = Suc (pm_assignments s))
   \<and> (detectedPackageManager s = None \<and> platform w \<noteq> Linux \<longrightarrow>
      detectedPackageManager (snd (executePlan w s plan)) = None \<and>
      pm_assignments (snd (executePlan w s plan)) = pm_assignments s)
   \<and> detectedPackageManager (snd (run_steps w s' steps tm)) = detectedPackageManager s'
   \<and> pm_assignments (snd (run_steps w s' steps tm)) = pm_assignments s'"
proof -
  have steps: "detectedPackageManager (snd (run_steps w s' steps tm)) = detectedPackageManager s'"
              "pm_assignments (snd (run_steps w s' steps tm)) = pm_assignments s'"
    using run_steps_extends [of s' w steps tm] by (simp_all add: extends_def)
  have other: "detectedPackageManager (snd (executePlan w s plan)) = detectedPackageManager s \<and>
               pm_assignments (snd (executePlan w s plan)) = pm_assignments s"
    if "platform w \<noteq> Linux"
    using run_steps_extends [of "emit (AppendLine (plan_start plan)) s" w plan None]
    by (simp add: executePlan_other [OF that] extends_def)
  have linux: "detectedPackageManager (snd (executePlan w s plan)) =
                 detectedPackageManager (detection_state w s plan) \<and>
               pm_assignments (snd (executePlan w s plan)) =
                 pm_assignments (detection_state w s plan)"
    if "platform w = Linux"
    using executePlan_linux_state [OF that, of s plan] by (simp add: extends_def)
  show ?thesis
    using steps other linux detection_state_pm [of s m w plan]
    by (cases "platform w = Linux") auto
qed

theorem package_manager_cache_witness:
  "detectedPackageManager (snd (executePlan sample_host module_loaded [])) \<noteq> None
   \<and> pm_assignments (snd (executePlan sample_host module_loaded [])) = 1
   \<and> detectedPackageManager
        (snd (executePlan sample_host
               (module_loaded\<lparr>detectedPackageManager := Some Dnf\<rparr>) [install_git])) = Some Dnf
   \<and> pm_assignments
        (snd (executePlan sample_host
               (module_loaded\<lparr>detectedPackageManager := Some Dnf\<rparr>) [install_git])) = 0"
  using package_manager_cache [of module_loaded Dnf sample_host "[]"]
    package_manager_cache [of "module_loaded\<lparr>detectedPackageManager := Some Dnf\<rparr>" Dnf
      sample_host "[install_git]"]
  by (simp add: module_loaded_def sample_host_def)

text \<open>
  C3, counterexample. Two runs in one process on a Linux host where \<^verbatim>\<open>apt\<close> is
  present: the first run leaves the variable at \<^verbatim>\<open>apt\<close>; the second run starts from
  that state, issues no detection probe (its events are the start line, the terminal
  and the completion marker) and makes no assignment.
\<close>

theorem package_manager_not_reset:
  "detectedPackageManager (snd (executePlan sample_host module_loaded [])) = Some Apt
   \<and> history (snd (executePlan sample_host (snd (executePlan sample_host module_loaded [])) [])) =
       history (snd (executePlan sample_host module_loaded [])) @
       [AppendLine ''[Executor] Starting execution of 0-step plan.'',
        CreateTerminal ''Dev Env Setup'', TerminalShow 0,
        AppendLine finished_line, SendText 0 success_text]
   \<and> pm_assignments
        (snd (executePlan sample_host (snd (executePlan sample_host module_loaded [])) [])) =
       pm_assignments (snd (executePlan sample_host module_loaded []))"
proof -
  have p: "platform sample_host = Linux" by (simp add: sample_host_def)
  have ok: "exec_error (exec_outcome sample_host h) = None" for h
    by (simp add: sample_host_def quiet_reply_def)
  have t: "create_terminal sample_host h = 0" for h
    by (simp add: sample_host_def)
  have d0: "digits 0 = ''0''"
    by (simp add: digits.simps digit_char_def)
  define s1 where "s1 = snd (executePlan sample_host module_loaded [])"
  have first: "detectedPackageManager s1 = Some Apt"
    unfolding s1_def
    by (simp add: executePlan_def Let_def p open_terminal_def detectLinuxPackageManager_def
        module_loaded_def runCommandSilently_def ok case_prod_beta)
  have second: "executePlan sample_host s1 [] =
      (Fulfilled,
       finish (Some 0)
         (emit (TerminalShow 0) (emit (CreateTerminal ''Dev Env Setup'')
            (emit (AppendLine ''[Executor] Starting execution of 0-step plan.'') s1))))"
    using first
    by (simp add: executePlan_def Let_def p open_terminal_def detectLinuxPackageManager_def t
        plan_start_def d0)
  from first second show ?thesis
    unfolding s1_def [symmetric] by simp
qed

lemma detection_state_history_start:
  "detection_state w s plan =
     snd (detectLinuxPackageManager w
       (emit (TerminalShow (plan_terminal w s plan))
          (emit (CreateTerminal ''Dev Env Setup'') (emit (AppendLine (plan_start plan)) s))))"
  by (simp add: detection_state_def plan_terminal_def open_terminal_def Let_def)

text \<open>
  C8 (as amended). On Linux, in a run that starts with the package manager
  unresolved, detection records the first of apt, dnf, pacman whose presence probe
  succeeds (a manager is present when its probe succeeds whenever it is issued, absent
  when it fails whenever it is issued), and \<^verbatim>\<open>unknown\<close> when all three are absent.
  In that last case the run returns, and its events after detection are, for every
  INSTALL step, the announcement, the error "no install command", the failure log line
  and its echo in the terminal; for every REINSTALL step the same with "no uninstall
  command"; then the completion marker: each such step ends in a step-local error and
  the loop goes on to the next step. In a state where a value is already cached,
  detection issues no probe and changes nothing; a run that starts with \<^verbatim>\<open>unknown\<close>
  cached has the same events of rejected steps, whatever managers are present by
  then.
\<close>

theorem unknown_package_manager:
  assumes linux: "platform w = Linux"
    and fresh: "detectedPackageManager s = None"
  shows "((\<forall>h. exec_error (exec_outcome w (h @ [Exec ''command -v apt''])) = None) \<longrightarrow>
            detectedPackageManager (snd (detectLinuxPackageManager w s)) = Some Apt)
       \<and> ((\<forall>h. exec_error (exec_outcome w (h @ [Exec ''command -v apt''])) \<noteq> None) \<and>
          (\<forall>h. exec_error (exec_outcome w (h @ [Exec ''command -v dnf''])) = None) \<longrightarrow>
            detectedPackageManager (snd (detectLinuxPackageManager w s)) = Some Dnf)
       \<and> ((\<forall>h. exec_error (exec_outcome w (h @ [Exec ''command -v apt''])) \<noteq> None) \<and>
          (\<forall>h. exec_error (exec_outcome w (h @ [Exec ''command -v dnf''])) \<noteq> None) \<and>
          (\<forall>h. exec_error (exec_outcome w (h @ [Exec ''command -v pacman''])) = None) \<longrightarrow>
            detectedPackageManager (snd (detectLinuxPackageManager w s)) = Some Pacman)
       \<and> ((\<forall>h. exec_error (exec_outcome w (h @ [Exec ''command -v apt''])) \<noteq> None) \<and>
          (\<forall>h. exec_error (exec_outcome w (h @ [Exec ''command -v dnf''])) \<noteq> None) \<and>
          (\<forall>h. exec_error (exec_outcome w (h @ [Exec ''command -v pacman''])) \<noteq> None) \<longrightarrow>
            detectedPackageManager (snd (detectLinuxPackageManager w s)) = Some Unknown
            \<and> detectedPackageManager (detection_state w s plan) = Some Unknown
            \<and> fst (executePlan w s plan) = Fulfilled
            \<and> history (snd (executePlan w s plan)) =
                history (detection_state w s plan) @
                concat (map (no_command_events (plan_terminal w s plan)) plan) @
                [AppendLine finished_line, SendText (plan_terminal w s plan) success_text])
       \<and> (\<forall>s' step tm. detectedPackageManager s' = Some Unknown \<longrightarrow>
            fst (installDependency w s' step tm) = Rejected (no_install_command (dependency step)) \<and>
            fst (uninstallDependency w s' step tm) = Rejected (no_uninstall_command (dependency step)))
       \<and> (\<forall>s' m. detectedPackageManager s' = Some m \<longrightarrow>
            detectLinuxPackageManager w s' = (Fulfilled, s'))
       \<and> (\<forall>s'. detectedPackageManager s' = Some Unknown \<longrightarrow>
            fst (executePlan w s' plan) = Fulfilled
            \<and> history (snd (executePlan w s' plan)) =
                history (detection_state w s' plan) @
                concat (map (no_command_events (plan_terminal w s' plan)) plan) @
                [AppendLine finished_line, SendText (plan_terminal w s' plan) success_text])"
proof -
  let ?apt = "\<forall>h. exec_error (exec_outcome w (h @ [Exec ''command -v apt''])) = None"
  let ?no_apt = "\<forall>h. exec_error (exec_outcome w (h @ [Exec ''command -v apt''])) \<noteq> None"
  let ?dnf = "\<forall>h. exec_error (exec_outcome w (h @ [Exec ''command -v dnf''])) = None"
  let ?no_dnf = "\<forall>h. exec_error (exec_outcome w (h @ [Exec ''command -v dnf''])) \<noteq> None"
  let ?pacman = "\<forall>h. exec_error (exec_outcome w (h @ [Exec ''command -v pacman''])) = None"
  let ?no_pacman = "\<forall>h. exec_error (exec_outcome w (h @ [Exec ''command -v pacman''])) \<noteq> None"
  have det: "detectedPackageManager (snd (detectLinuxPackageManager w s0)) = Some Apt"
    if ?apt "detectedPackageManager s0 = None" for s0
  proof -
    let ?a = "emit (AppendLine ''[Executor] Detecting Linux package manager...'') s0"
    have e1: "fst (runCommandSilently w ?a (''command -v '' @ pm_name Apt)) = Fulfilled"
      using probe_found [OF that(1), of ?a] by simp
    have "detectedPackageManager (snd (detect_loop w ?a [Apt, Dnf, Pacman])) = Some Apt"
      by (simp only: detect_loop_ok [OF e1] snd_conv assign_pm_simps)
    with that(2) show ?thesis
      by (simp add: detectLinuxPackageManager_def del: detect_loop.simps)
  qed
  have det2: "detectedPackageManager (snd (detectLinuxPackageManager w s0)) = Some Dnf"
    if ?no_apt ?dnf "detectedPackageManager s0 = None" for s0
  proof -
    let ?a = "emit (AppendLine ''[Executor] Detecting Linux package manager...'') s0"
    let ?b = "snd (runCommandSilently w ?a (''command -v '' @ pm_name Apt))"
    from probe_missing [OF that(1), of ?a]
    obtain e1 where e1: "fst (runCommandSilently w ?a (''command -v '' @ pm_name Apt)) = Rejected e1"
      by auto
    have e2: "fst (runCommandSilently w ?b (''command -v '' @ pm_name Dnf)) = Fulfilled"
      using probe_found [OF that(2), of ?b] by simp
    have "detect_loop w ?a [Apt, Dnf, Pacman] = detect_loop w ?b [Dnf, Pacman]"
      by (rule detect_loop_next [OF e1])
    then have "detectedPackageManager (snd (detect_loop w ?a [Apt, Dnf, Pacman])) = Some Dnf"
      by (simp only: detect_loop_ok [OF e2] snd_conv assign_pm_simps)
    with that(3) show ?thesis
      by (simp add: detectLinuxPackageManager_def del: detect_loop.simps)
  qed
  have det3: "detectedPackageManager (snd (detectLinuxPackageManager w s0)) = Some Pacman"
    if ?no_apt ?no_dnf ?pacman "detectedPackageManager s0 = None" for s0
  proof -
    let ?a = "emit (AppendLine ''[Executor] Detecting Linux package manager...'') s0"
    let ?b = "snd (runCommandSilently w ?a (''command -v '' @ pm_name Apt))"
    let ?c = "snd (runCommandSilently w ?b (''command -v '' @ pm_name Dnf))"
    from probe_missing [OF that(1), of ?a]
    obtain e1 where e1: "fst (runCommandSilently w ?a (''command -v '' @ pm_name Apt)) = Rejected e1"
      by auto
    from probe_missing [OF that(2), of ?b]
    obtain e2 where e2: "fst (runCommandSilently w ?b (''command -v '' @ pm_name Dnf)) = Rejected e2"
      by auto
    have e3: "fst (runCommandSilently w ?c (''command -v '' @ pm_name Pacman)) = Fulfilled"
      using probe_found [OF that(3), of ?c] by simp
    have "detect_loop w ?a [Apt, Dnf, Pacman] = detect_loop w ?b [Dnf, Pacman]"
      by (rule detect_loop_next [OF e1])
    also have "\<dots> = detect_loop w ?c [Pacman]"
      by (rule detect_loop_next [OF e2])
    finally have "detectedPackageManager (snd (detect_loop w ?a [Apt, Dnf, Pacman])) = Some Pacman"
      by (simp only: detect_loop_ok [OF e3] snd_conv assign_pm_simps)
    with that(4) show ?thesis
      by (simp add: detectLinuxPackageManager_def del: detect_loop.simps)
  qed
  have det4: "detectedPackageManager (snd (detectLinuxPackageManager w s0)) = Some Unknown"
    if ?no_apt ?no_dnf ?no_pacman "detectedPackageManager s0 = None" for s0
  proof -
    let ?a = "emit (AppendLine ''[Executor] Detecting Linux package manager...'') s0"
    let ?b = "snd (runCommandSilently w ?a (''command -v '' @ pm_name Apt))"
    let ?c = "snd (runCommandSilently w ?b (''command -v '' @ pm_name Dnf))"
    let ?d = "snd (runCommandSilently w ?c (''command -v '' @ pm_name Pacman))"
    from probe_missing [OF that(1), of ?a]
    obtain e1 where e1: "fst (runCommandSilently w ?a (''command -v '' @ pm_name Apt)) = Rejected e1"
      by auto
    from probe_missing [OF that(2), of ?b]
    obtain e2 where e2: "fst (runCommandSilently w ?b (''command -v '' @ pm_name Dnf)) = Rejected e2"
      by auto
    from probe_missing [OF that(3), of ?c]
    obtain e3 where e3: "fst (runCommandSilently w ?c (''command -v '' @ pm_name Pacman)) = Rejected e3"
      by auto
    have "detect_loop w ?a [Apt, Dnf, Pacman] = detect_loop w ?b [Dnf, Pacman]"
      by (rule detect_loop_next [OF e1])
    also have "\<dots> = detect_loop w ?c [Pacman]"
      by (rule detect_loop_next [OF e2])
    also have "\<dots> = detect_loop w ?d []"
      by (rule detect_loop_next [OF e3])
    finally have "detectedPackageManager (snd (detect_loop w ?a [Apt, Dnf, Pacman])) = Some Unknown"
      by (simp only: detect_loop.simps(1) snd_conv assign_pm_simps)
    with that(4) show ?thesis
      by (simp add: detectLinuxPackageManager_def del: detect_loop.simps)
  qed
  have run: "detectedPackageManager (detection_state w s plan) = Some Unknown
            \<and> fst (executePlan w s plan) = Fulfilled
            \<and> history (snd (executePlan w s plan)) =
                history (detection_state w s plan) @
                concat (map (no_command_events (plan_terminal w s plan)) plan) @
                [AppendLine finished_line, SendText (plan_terminal w s plan) success_text]"
    if none: ?no_apt ?no_dnf ?no_pacman
  proof -
    have u: "detectedPackageManager (detection_state w s plan) = Some Unknown"
      unfolding detection_state_history_start
      by (rule det4 [OF none]) (simp add: fresh)
    note steps = run_steps_unknown [OF linux u, of plan "plan_terminal w s plan"]
    from steps have f: "fst (run_steps w (detection_state w s plan) plan
        (Some (plan_terminal w s plan))) = Fulfilled" by simp
    from u steps show ?thesis
      by (simp add: executePlan_linux [OF linux f])
  qed
  have per_step: "fst (installDependency w s' step tm) = Rejected (no_install_command (dependency step)) \<and>
            fst (uninstallDependency w s' step tm) = Rejected (no_uninstall_command (dependency step))"
    if "detectedPackageManager s' = Some Unknown" for s' step tm
    by (simp add: installDependency_unknown [OF linux that]
        uninstallDependency_unknown [OF linux that])
  have cached: "detectLinuxPackageManager w s' = (Fulfilled, s')"
    if "detectedPackageManager s' = Some m" for s' m
    using that by (rule detectLinuxPackageManager_cached)
  have run_cached: "fst (executePlan w s' plan) = Fulfilled
            \<and> history (snd (executePlan w s' plan)) =
                history (detection_state w s' plan) @
                concat (map (no_command_events (plan_terminal w s' plan)) plan) @
                [AppendLine finished_line, SendText (plan_terminal w s' plan) success_text]"
    if "detectedPackageManager s' = Some Unknown" for s'
  proof -
    have u: "detectedPackageManager (detection_state w s' plan) = Some Unknown"
      using detection_state_pm [of s' Unknown w plan] that by simp
    note steps = run_steps_unknown [OF linux u, of plan "plan_terminal w s' plan"]
    from steps have f: "fst (run_steps w (detection_state w s' plan) plan
        (Some (plan_terminal w s' plan))) = Fulfilled" by simp
    from steps show ?thesis
      by (simp add: executePlan_linux [OF linux f])
  qed
  from det [OF _ fresh] det2 [OF _ _ fresh] det3 [OF _ _ _ fresh] det4 [OF _ _ _ fresh] run per_step
    cached run_cached
  show ?thesis by blast
qed

theorem unknown_package_manager_witness:
  "detectedPackageManager (snd (detectLinuxPackageManager dnf_host module_loaded)) = Some Dnf
   \<and> detectedPackageManager (snd (detectLinuxPackageManager no_manager_host module_loaded)) = Some Unknown
   \<and> fst (executePlan no_manager_host module_loaded [install_git, reinstall_node]) = Fulfilled
   \<and> history (snd (executePlan no_manager_host module_loaded [install_git, reinstall_node])) =
       [AppendLine ''[Executor] Starting execution of 2-step plan.'',
        CreateTerminal ''Dev Env Setup'', TerminalShow 0,
        AppendLine ''[Executor] Detecting Linux package manager...'',
        AppendLine ''[Executor] > Running silently: command -v apt'', Exec ''command -v apt'',
        AppendLine ''[Executor] > Running silently: command -v dnf'', Exec ''command -v dnf'',
        AppendLine ''[Executor] > Running silently: command -v pacman'', Exec ''command -v pacman'',
        AppendLine ''[Executor] Could not detect a supported Linux package manager.'',
        AppendLine (install_start git_requirement),
        ShowErrorMessage (no_install_command git_requirement),
        AppendLine (failed_message git_requirement),
        SendText 0 (''echo '' @ dq @ backslash_n @ ''[ERROR] '' @
                    failed_message git_requirement @ backslash_n @ dq),
        AppendLine (uninstall_start node_requirement),
        ShowErrorMessage (no_uninstall_command node_requirement),
        AppendLine (failed_message node_requirement),
        SendText 0 (''echo '' @ dq @ backslash_n @ ''[ERROR] '' @
                    failed_message node_requirement @ backslash_n @ dq),
        AppendLine finished_line, SendText 0 success_text]"
proof -
  have linux: "platform no_manager_host = Linux"
    by (simp add: no_manager_host_def sample_host_def)
  have fresh: "detectedPackageManager module_loaded = None"
    by (simp add: module_loaded_def)
  have absent: "\<forall>h. exec_error (exec_outcome no_manager_host (h @ [Exec c])) \<noteq> None" for c
    by (simp add: no_manager_host_def sample_host_def failed_reply_def)
  have t: "plan_terminal no_manager_host module_loaded [install_git, reinstall_node] = 0"
    by (simp add: plan_terminal_def open_terminal_def Let_def no_manager_host_def sample_host_def)
  have start: "plan_start [install_git, reinstall_node] =
      ''[Executor] Starting execution of 2-step plan.''"
    by (simp add: plan_start_def digits.simps digit_char_def)
  have fail: "exec_outcome no_manager_host h = failed_reply"
    and t0: "create_terminal no_manager_host h = 0" for h
    by (simp_all add: no_manager_host_def sample_host_def)
  have d: "history (detection_state no_manager_host module_loaded [install_git, reinstall_node]) =
       [AppendLine ''[Executor] Starting execution of 2-step plan.'',
        CreateTerminal ''Dev Env Setup'', TerminalShow 0,
        AppendLine ''[Executor] Detecting Linux package manager...'',
        AppendLine ''[Executor] > Running silently: command -v apt'', Exec ''command -v apt'',
        AppendLine ''[Executor] > Running silently: command -v dnf'', Exec ''command -v dnf'',
        AppendLine ''[Executor] > Running silently: command -v pacman'', Exec ''command -v pacman'',
        AppendLine ''[Executor] Could not detect a supported Linux package manager.'']"
    by (simp add: detection_state_def open_terminal_def Let_def detectLinuxPackageManager_def
        module_loaded_def runCommandSilently_def fail t0 failed_reply_def start emit_def
        assign_pm_def)
  have ev: "concat (map (no_command_events 0) [install_git, reinstall_node]) =
       [AppendLine (install_start git_requirement),
        ShowErrorMessage (no_install_command git_requirement),
        AppendLine (failed_message git_requirement),
        SendText 0 (''echo '' @ dq @ backslash_n @ ''[ERROR] '' @
                    failed_message git_requirement @ backslash_n @ dq),
        AppendLine (uninstall_start node_requirement),
        ShowErrorMessage (no_uninstall_command node_requirement),
        AppendLine (failed_message node_requirement),
        SendText 0 (''echo '' @ dq @ backslash_n @ ''[ERROR] '' @
                    failed_message node_requirement @ backslash_n @ dq)]"
    by (simp add: no_command_events_def install_git_def reinstall_node_def)
  have linux': "platform dnf_host = Linux"
    by (simp add: dnf_host_def sample_host_def)
  have no_apt: "\<forall>h. exec_error (exec_outcome dnf_host (h @ [Exec ''command -v apt''])) \<noteq> None"
    and dnf: "\<forall>h. exec_error (exec_outcome dnf_host (h @ [Exec ''command -v dnf''])) = None"
    by (simp_all add: dnf_host_def sample_host_def failed_reply_def quiet_reply_def)
  from unknown_package_manager [OF linux' fresh, of "[]"] no_apt dnf
  have first: "detectedPackageManager (snd (detectLinuxPackageManager dnf_host module_loaded)) = Some Dnf"
    by blast
  from unknown_package_manager [OF linux fresh, of "[install_git, reinstall_node]"]
    absent
  have "detectedPackageManager (snd (detectLinuxPackageManager no_manager_host module_loaded)) = Some Unknown
   \<and> fst (executePlan no_manager_host module_loaded [install_git, reinstall_node]) = Fulfilled
   \<and> history (snd (executePlan no_manager_host module_loaded [install_git, reinstall_node])) =
       history (detection_state no_manager_host module_loaded [install_git, reinstall_node]) @
       concat (map (no_command_events
                      (plan_terminal no_manager_host module_loaded [install_git, reinstall_node]))
                 [install_git, reinstall_node]) @
       [AppendLine finished_line,
        SendText (plan_terminal no_manager_host module_loaded [install_git, reinstall_node])
          success_text]"
    by blast
  with first show ?thesis
    unfolding t d ev by simp
qed

text \<open>
  C8, counterexample. Two runs in one process on Linux. The first, on a host without
  any of the three managers, caches \<^verbatim>\<open>unknown\<close>. The second starts from that state on
  a host where every command succeeds, so that \<^verbatim>\<open>apt\<close> is present and its probe
  would be fulfilled: no probe is issued, the INSTALL step is rejected with "no
  install command", and the cached value is still \<^verbatim>\<open>unknown\<close>.
\<close>

theorem cached_unknown_skips_detection:
  "detectedPackageManager (snd (executePlan no_manager_host module_loaded [])) = Some Unknown
   \<and> fst (runCommandSilently sample_host (snd (executePlan no_manager_host module_loaded []))
            ''command -v apt'') = Fulfilled
   \<and> history (snd (executePlan sample_host (snd (executePlan no_manager_host module_loaded []))
                     [install_git])) =
       history (snd (executePlan no_manager_host module_loaded [])) @
       [AppendLine ''[Executor] Starting execution of 1-step plan.'',
        CreateTerminal ''Dev Env Setup'', TerminalShow 0,
        AppendLine (install_start git_requirement),
        ShowErrorMessage (no_install_command git_requirement),
        AppendLine (failed_message git_requirement),
        SendText 0 (''echo '' @ dq @ backslash_n @ ''[ERROR] '' @
                    failed_message git_requirement @ backslash_n @ dq),
        AppendLine finished_line, SendText 0 success_text]
   \<and> detectedPackageManager
        (snd (executePlan sample_host (snd (executePlan no_manager_host module_loaded []))
               [install_git])) = Some Unknown"
proof -
  have p0: "platform no_manager_host = Linux" and p: "platform sample_host = Linux"
    by (simp_all add: no_manager_host_def sample_host_def)
  have fail: "exec_error (exec_outcome no_manager_host h) = Some (False, ''Command failed'')" for h
    by (simp add: no_manager_host_def sample_host_def failed_reply_def)
  have ok: "exec_error (exec_outcome sample_host h) = None" for h
    by (simp add: sample_host_def quiet_reply_def)
  have t: "create_terminal sample_host h = 0" for h
    by (simp add: sample_host_def)
  have start: "plan_start [install_git] = ''[Executor] Starting execution of 1-step plan.''"
    by (simp add: plan_start_def digits.simps digit_char_def)
  define s1 where "s1 = snd (executePlan no_manager_host module_loaded [])"
  have first: "detectedPackageManager s1 = Some Unknown"
    unfolding s1_def
    by (simp add: executePlan_def Let_def p0 open_terminal_def detectLinuxPackageManager_def
        module_loaded_def runCommandSilently_def fail case_prod_beta)
  have probe: "fst (runCommandSilently sample_host s1 ''command -v apt'') = Fulfilled"
    by (simp add: runCommandSilently_result ok)
  let ?s2 = "emit (TerminalShow 0) (emit (CreateTerminal ''Dev Env Setup'')
               (emit (AppendLine ''[Executor] Starting execution of 1-step plan.'') s1))"
  have tm: "plan_terminal sample_host s1 [install_git] = 0"
    by (simp add: plan_terminal_def open_terminal_def Let_def t)
  have det: "detection_state sample_host s1 [install_git] = ?s2"
    unfolding detection_state_history_start tm start
    by (simp add: detectLinuxPackageManager_cached [where m = Unknown] first)
  have u: "detectedPackageManager (detection_state sample_host s1 [install_git]) = Some Unknown"
    by (simp add: det first)
  note steps = run_steps_unknown [OF p u, of "[install_git]" 0]
  from steps have f: "fst (run_steps sample_host (detection_state sample_host s1 [install_git])
      [install_git] (Some (plan_terminal sample_host s1 [install_git]))) = Fulfilled"
    by (simp add: tm)
  have ev: "no_command_events 0 install_git =
       [AppendLine (install_start git_requirement),
        ShowErrorMessage (no_install_command git_requirement),
        AppendLine (failed_message git_requirement),
        SendText 0 (''echo '' @ dq @ backslash_n @ ''[ERROR] '' @
                    failed_message git_requirement @ backslash_n @ dq)]"
    by (simp add: no_command_events_def install_git_def)
  have keep: "detectedPackageManager
      (snd (run_steps sample_host (detection_state sample_host s1 [install_git]) [install_git]
              (Some 0))) = Some Unknown"
    using run_steps_extends [of "detection_state sample_host s1 [install_git]" sample_host
        "[install_git]" "Some 0"] u
    by (simp add: extends_def)
  have h: "history (snd (executePlan sample_host s1 [install_git])) =
       history s1 @
       [AppendLine ''[Executor] Starting execution of 1-step plan.'',
        CreateTerminal ''Dev Env Setup'', TerminalShow 0,
        AppendLine (install_start git_requirement),
        ShowErrorMessage (no_install_command git_requirement),
        AppendLine (failed_message git_requirement),
        SendText 0 (''echo '' @ dq @ backslash_n @ ''[ERROR] '' @
                    failed_message git_requirement @ backslash_n @ dq),
        AppendLine finished_line, SendText 0 success_text]"
    using steps by (simp add: executePlan_linux [OF p f] tm ev) (simp add: det)
  have k: "detectedPackageManager (snd (executePlan sample_host s1 [install_git])) = Some Unknown"
    using keep by (simp add: executePlan_linux [OF p f] tm)
  from first probe h k show ?thesis
    unfolding s1_def [symmetric] by simp
qed

lemma install_start_distinct:
  "install_start d \<noteq> uninstall_start d"
  "install_start d \<noteq> failed_message d"
  "install_start d \<noteq> ''[Executor] > Running silently: '' @ c"
  by (simp_all add: install_start_def uninstall_start_def failed_message_def)

lemma runCommand_events:
  "\<exists>es. history (snd (runCommand w s c tm)) = history s @ es \<and>
        AppendLine (install_start d) \<notin> set es"
proof (cases tm)
  case None
  then show ?thesis
    by (auto simp: runCommand_def runCommandSilently_history install_start_def)
next
  case (Some t)
  then show ?thesis
    by (simp add: runCommand_def runCommandInTerminal_def Let_def)
qed

lemma uninstallDependency_events:
  "\<exists>es. history (snd (uninstallDependency w s step tm)) = history s @ es \<and>
        AppendLine (install_start (dependency step)) \<notin> set es"
proof (cases "getUninstallCommand (detectedPackageManager s) (platform w) (dependency step)")
  case None
  then show ?thesis
    by (simp add: uninstallDependency_def Let_def install_start_distinct)
next
  case (Some c)
  from runCommand_events
    [of w "emit (AppendLine (uninstall_start (dependency step))) s" c tm "dependency step"]
  obtain es where "history (snd (runCommand w
      (emit (AppendLine (uninstall_start (dependency step))) s) c tm)) =
      history s @ AppendLine (uninstall_start (dependency step)) # es"
    and "AppendLine (install_start (dependency step)) \<notin> set es"
    by auto
  with Some show ?thesis
    by (simp add: uninstallDependency_def Let_def install_start_distinct)
qed

text \<open>
  C1 (as amended). A REINSTALL step begins with the uninstall. If the uninstall is
  fulfilled, the install runs next, from the state the uninstall left. If the
  uninstall is rejected (no command resolvable, or the command failed), the install is
  not attempted: the step is logged as failed and completes, and the install
  announcement is not among the events of the step.
\<close>

theorem reinstall_after_uninstall:
  assumes "action step = REINSTALL"
  shows "prefix (history s @ [AppendLine (uninstall_start (dependency step))])
           (history (snd (step_body w s step tm)))
       \<and> (fst (uninstallDependency w s step tm) = Fulfilled \<longrightarrow>
            step_body w s step tm =
              installDependency w (snd (uninstallDependency w s step tm)) step tm)
       \<and> (\<forall>err. fst (uninstallDependency w s step tm) = Rejected err \<longrightarrow>
            run_step w s step tm =
              (Fulfilled,
               send_if tm (''echo '' @ dq @ backslash_n @ ''[ERROR] '' @
                           failed_message (dependency step) @ backslash_n @ dq)
                 (emit (AppendLine (failed_message (dependency step)))
                    (snd (uninstallDependency w s step tm))))
            \<and> (\<exists>es. history (snd (run_step w s step tm)) = history s @ es \<and>
                     AppendLine (install_start (dependency step)) \<notin> set es))"
proof -
  have a: "prefix (history s @ [AppendLine (uninstall_start (dependency step))])
           (history (snd (step_body w s step tm)))"
    using step_body_extends [of step s w tm] assms
    by (simp add: extends_def step_announcement_def)
  have b: "step_body w s step tm =
              installDependency w (snd (uninstallDependency w s step tm)) step tm"
    if "fst (uninstallDependency w s step tm) = Fulfilled"
    using that assms by (simp add: step_body_def case_prod_beta)
  have c: "run_step w s step tm =
              (Fulfilled,
               send_if tm (''echo '' @ dq @ backslash_n @ ''[ERROR] '' @
                           failed_message (dependency step) @ backslash_n @ dq)
                 (emit (AppendLine (failed_message (dependency step)))
                    (snd (uninstallDependency w s step tm))))"
    if "fst (uninstallDependency w s step tm) = Rejected err" for err
    using that assms by (simp add: run_step_def step_body_def case_prod_beta)
  have d: "\<exists>es. history (snd (run_step w s step tm)) = history s @ es \<and>
                     AppendLine (install_start (dependency step)) \<notin> set es"
    if "fst (uninstallDependency w s step tm) = Rejected err" for err
  proof -
    from uninstallDependency_events [of w s step tm]
    obtain es where "history (snd (uninstallDependency w s step tm)) = history s @ es"
      and "AppendLine (install_start (dependency step)) \<notin> set es" by auto
    note u = this
    let ?log = "AppendLine (failed_message (dependency step))"
    let ?echo = "''echo '' @ dq @ backslash_n @ ''[ERROR] '' @
                           failed_message (dependency step) @ backslash_n @ dq"
    show ?thesis
    proof (cases tm)
      case None
      have "history (snd (run_step w s step tm)) = history s @ (es @ [?log])"
        unfolding c [OF that] using u None by simp
      moreover from u have "AppendLine (install_start (dependency step)) \<notin> set (es @ [?log])"
        by (simp add: install_start_distinct)
      ultimately show ?thesis by blast
    next
      case (Some t)
      have "history (snd (run_step w s step tm)) = history s @ (es @ [?log, SendText t ?echo])"
        unfolding c [OF that] using u Some by simp
      moreover from u have "AppendLine (install_start (dependency step)) \<notin>
          set (es @ [?log, SendText t ?echo])"
        by (simp add: install_start_distinct)
      ultimately show ?thesis by blast
    qed
  qed
  from a b c d show ?thesis by blast
qed

theorem reinstall_after_uninstall_witness:
  "run_step windows_failing_host module_loaded reinstall_node None =
     (Fulfilled,
      module_loaded\<lparr>history :=
        [AppendLine (uninstall_start node_requirement),
         AppendLine ''[Executor] > Running silently: winget uninstall -e --id OpenJS.NodeJS.LTS'',
         Exec ''winget uninstall -e --id OpenJS.NodeJS.LTS'',
         AppendLine (failed_message node_requirement)]\<rparr>)"
proof -
  have r: "action reinstall_node = REINSTALL" by (simp add: reinstall_node_def)
  have cmd: "getUninstallCommand None Win32 node_requirement =
      Some ''winget uninstall -e --id OpenJS.NodeJS.LTS''"
    by (simp add: getUninstallCommand_def getPackageNameForPlatform_def PACKAGE_NAMES_def
        node_requirement_def truthy_def or_else_def)
  have u: "uninstallDependency windows_failing_host module_loaded reinstall_node None =
      (Rejected ''Command failed'',
       module_loaded\<lparr>history :=
        [AppendLine (uninstall_start node_requirement),
         AppendLine ''[Executor] > Running silently: winget uninstall -e --id OpenJS.NodeJS.LTS'',
         Exec ''winget uninstall -e --id OpenJS.NodeJS.LTS'']\<rparr>)"
    by (simp add: uninstallDependency_def Let_def reinstall_node_def windows_failing_host_def
        sample_host_def module_loaded_def cmd runCommand_def runCommandSilently_def emit_def
        failed_reply_def)
  from reinstall_after_uninstall [OF r, of module_loaded windows_failing_host None] u
  show ?thesis
    by (simp add: reinstall_node_def emit_def module_loaded_def)
qed

text \<open>
  C1, counterexample. On a Windows host where every command fails, the plan with the
  single step REINSTALL Node.js: the uninstall command is rejected, and the run
  consists of the start line, the uninstall attempt, the failure log line and the
  finishing line; neither the install announcement nor the install command occurs.
\<close>

theorem reinstall_skips_install:
  "fst (uninstallDependency windows_failing_host
         (emit (AppendLine (plan_start [reinstall_node])) module_loaded) reinstall_node None) =
     Rejected ''Command failed''
   \<and> history (snd (executePlan windows_failing_host module_loaded [reinstall_node])) =
       [AppendLine ''[Executor] Starting execution of 1-step plan.'',
        AppendLine (uninstall_start node_requirement),
        AppendLine ''[Executor] > Running silently: winget uninstall -e --id OpenJS.NodeJS.LTS'',
        Exec ''winget uninstall -e --id OpenJS.NodeJS.LTS'',
        AppendLine (failed_message node_requirement),
        AppendLine finished_line]
   \<and> AppendLine (install_start node_requirement) \<notin>
       set (history (snd (executePlan windows_failing_host module_loaded [reinstall_node])))
   \<and> Exec ''winget install -e --id OpenJS.NodeJS.LTS'' \<notin>
       set (history (snd (executePlan windows_failing_host module_loaded [reinstall_node])))"
proof -
  have p: "platform windows_failing_host \<noteq> Linux"
    by (simp add: windows_failing_host_def sample_host_def)
  have cmd: "getUninstallCommand None Win32 node_requirement =
      Some ''winget uninstall -e --id OpenJS.NodeJS.LTS''"
    by (simp add: getUninstallCommand_def getPackageNameForPlatform_def PACKAGE_NAMES_def
        node_requirement_def truthy_def or_else_def)
  have start: "plan_start [reinstall_node] = ''[Executor] Starting execution of 1-step plan.''"
    by (simp add: plan_start_def digits.simps digit_char_def)
  have dep: "dependency reinstall_node = node_requirement" "action reinstall_node = REINSTALL"
    by (simp_all add: reinstall_node_def)
  let ?s1 = "emit (AppendLine (plan_start [reinstall_node])) module_loaded"
  have u: "uninstallDependency windows_failing_host ?s1 reinstall_node None =
      (Rejected ''Command failed'',
       module_loaded\<lparr>history :=
        [AppendLine ''[Executor] Starting execution of 1-step plan.'',
         AppendLine (uninstall_start node_requirement),
         AppendLine ''[Executor] > Running silently: winget uninstall -e --id OpenJS.NodeJS.LTS'',
         Exec ''winget uninstall -e --id OpenJS.NodeJS.LTS'']\<rparr>)"
    by (simp add: uninstallDependency_def Let_def dep windows_failing_host_def
        sample_host_def module_loaded_def cmd runCommand_def runCommandSilently_def emit_def
        failed_reply_def start)
  have h: "history (snd (executePlan windows_failing_host module_loaded [reinstall_node])) =
       [AppendLine ''[Executor] Starting execution of 1-step plan.'',
        AppendLine (uninstall_start node_requirement),
        AppendLine ''[Executor] > Running silently: winget uninstall -e --id OpenJS.NodeJS.LTS'',
        Exec ''winget uninstall -e --id OpenJS.NodeJS.LTS'',
        AppendLine (failed_message node_requirement),
        AppendLine finished_line]"
    by (simp add: executePlan_other [OF p] run_step_def step_body_def u dep)
  have n: "install_start node_requirement \<noteq> ''[Executor] Starting execution of 1-step plan.''"
          "install_start node_requirement \<noteq>
             ''[Executor] > Running silently: winget uninstall -e --id OpenJS.NodeJS.LTS''"
          "install_start node_requirement \<noteq> finished_line"
    by (simp_all add: install_start_def finished_line_def)
  from u h n show ?thesis
    by (simp add: install_start_distinct)
qed

section \<open>Properties of the Auditor\<close>

lemma audit_dependencies_not_null: "fst (audit_dependencies w h) \<noteq> Returns None"
  by (simp add: audit_dependencies_def
      split: prod.splits option.splits dependencies.splits list.splits)

lemma those_map_Some: "those (map Some xs) = Some xs"
  by (induction xs) simp_all

lemma check_all_returns:
  assumes "\<And>h. exec_returns w h"
  shows "\<exists>rs h'. check_all w h (map Some deps) = (Some (map Some rs), h') \<and>
                map ar_dependency rs = deps"
proof (induction deps arbitrary: h)
  case Nil
  show ?case by simp
next
  case (Cons dep deps)
  obtain r h1 where probe: "checkSingleDependency w h dep = (Some r, h1)"
    and dep: "ar_dependency r = dep"
    using assms by (simp add: checkSingleDependency_def Let_def split: option.splits)
  from Cons [of h1] obtain rs h2 where
    "check_all w h1 (map Some deps) = (Some (map Some rs), h2)" "map ar_dependency rs = deps"
    by blast
  with probe dep have step:
    "check_all w h (map Some (dep # deps)) = (Some (map Some (r # rs)), h2) \<and>
     map ar_dependency (r # rs) = dep # deps"
    by simp
  show ?case
    by (intro exI [where x = "r # rs"] exI [where x = h2]) (fact step)
qed

text \<open>
  C9. On Linux, if \<^verbatim>\<open>/etc/os-release\<close> cannot be read, \<open>runAudit\<close> returns
  \<^verbatim>\<open>null\<close> after the fatal notification and log line, and no command is executed in
  the run, so no dependency is probed. If the file is read and names a distribution
  outside the supported list, the only effect is the warning line: the audit goes on
  with the reading of the configuration exactly as \<open>audit_dependencies\<close> does from
  there, and whatever that yields it is not the \<^verbatim>\<open>null\<close> of an aborted audit. Where
  the configuration then holds a non-empty array of requirements and every probe's
  process exits, the audit returns one result for each requirement, in order.
  \<open>preflight_read h\<close> is the history at which the file is read.
\<close>

theorem os_release_preflight:
  assumes linux: "platform w = Linux"
  shows "(\<forall>code. read_file w (preflight_read h) = Inl code \<longrightarrow>
            runAudit w h =
              (Returns None,
               preflight_read h @
               [ShowErrorMessage ''Setup cannot continue: Could not detect Linux distribution.'',
                AppendLine ''[Auditor] FATAL: Could not detect Linux distribution.''])
            \<and> (\<forall>c. Exec c \<notin> set (drop (length h) (snd (runAudit w h)))))
       \<and> (\<forall>osRelease distro.
            read_file w (preflight_read h) = Inr osRelease \<and> linux_distro osRelease = Some distro \<and>
            distro \<notin> set supportedDistros \<longrightarrow>
            runAudit w h =
              audit_dependencies w
                (preflight_read h @
                 [AppendLine (''[Auditor] WARNING: Detected unsupported Linux distribution: '' @
                              distro @ ''.'')])
            \<and> fst (runAudit w h) \<noteq> Returns None
            \<and> (\<forall>deps.
                 fst (readConfigFile w
                        (preflight_read h @
                         [AppendLine (''[Auditor] WARNING: Detected unsupported Linux distribution: '' @
                                      distro @ ''.'')])) =
                   Some (DependencyArray (map Some deps)) \<and>
                 deps \<noteq> [] \<and> (\<forall>h'. exec_returns w h') \<longrightarrow>
                 (\<exists>results. fst (runAudit w h) = Returns (Some results) \<and>
                             map ar_dependency results = deps)))"
proof -
  have pre: "ensurePackageManager w (h @ [AppendLine ''[Auditor] Starting system audit...'']) =
      detectLinuxDistribution w
        (h @ [AppendLine ''[Auditor] Starting system audit...'',
              AppendLine ''[Auditor] Performing pre-flight check for OS: linux''])"
    by (simp add: ensurePackageManager_def Let_def linux)
  have a: "runAudit w h =
              (Returns None,
               preflight_read h @
               [ShowErrorMessage ''Setup cannot continue: Could not detect Linux distribution.'',
                AppendLine ''[Auditor] FATAL: Could not detect Linux distribution.''])"
    if "read_file w (preflight_read h) = Inl code" for code
    using that
    by (simp add: runAudit_def pre detectLinuxDistribution_def Let_def preflight_read_def)
  have b: "Exec c \<notin> set (drop (length h) (snd (runAudit w h)))"
    if "read_file w (preflight_read h) = Inl code" for code c
    by (simp add: a [OF that] preflight_read_def)
  have c: "runAudit w h =
              audit_dependencies w
                (preflight_read h @
                 [AppendLine (''[Auditor] WARNING: Detected unsupported Linux distribution: '' @
                              distro @ ''.'')])"
    if "read_file w (preflight_read h) = Inr osRelease" "linux_distro osRelease = Some distro"
       "distro \<notin> set supportedDistros" for osRelease distro
    using that
    by (simp add: runAudit_def pre detectLinuxDistribution_def Let_def preflight_read_def)
  have d: "fst (runAudit w h) \<noteq> Returns None"
    if "read_file w (preflight_read h) = Inr osRelease" "linux_distro osRelease = Some distro"
       "distro \<notin> set supportedDistros" for osRelease distro
    unfolding c [OF that] by (rule audit_dependencies_not_null)
  have e: "\<exists>results. fst (runAudit w h) = Returns (Some results) \<and>
                     map ar_dependency results = deps"
    if os: "read_file w (preflight_read h) = Inr osRelease" "linux_distro osRelease = Some distro"
       "distro \<notin> set supportedDistros"
      and cfg: "fst (readConfigFile w
                        (preflight_read h @
                         [AppendLine (''[Auditor] WARNING: Detected unsupported Linux distribution: '' @
                                      distro @ ''.'')])) =
                   Some (DependencyArray (map Some deps))"
      and ne: "deps \<noteq> []" and ret: "\<forall>h'. exec_returns w h'"
    for osRelease distro deps
  proof -
    let ?hw = "preflight_read h @
                 [AppendLine (''[Auditor] WARNING: Detected unsupported Linux distribution: '' @
                              distro @ ''.'')]"
    obtain h1 where r: "readConfigFile w ?hw = (Some (DependencyArray (map Some deps)), h1)"
      using cfg by (cases "readConfigFile w ?hw") simp
    from ne obtain dep rest where deps: "deps = dep # rest" by (cases deps) auto
    let ?h2 = "h1 @ [AppendLine (''[Auditor] Found '' @ digits (length deps) @
                                 '' dependencies to check.'')]"
    from check_all_returns [of w ?h2 deps] ret
    obtain rs h3 where ch: "check_all w ?h2 (map Some deps) = (Some (map Some rs), h3)"
      and m: "map ar_dependency rs = deps" by auto
    have "audit_dependencies w ?hw =
        (Returns (Some rs), h3 @ [AppendLine ''[Auditor] System audit complete.''])"
      using r ch unfolding deps
      by (simp add: audit_dependencies_def those_map_Some del: check_all.simps)
    with m show ?thesis unfolding c [OF os] by simp
  qed
  from a b c d e show ?thesis by blast
qed

theorem os_release_preflight_witness:
  "runAudit sample_host [] =
     (Returns None,
      [AppendLine ''[Auditor] Starting system audit...'',
       AppendLine ''[Auditor] Performing pre-flight check for OS: linux'',
       ReadFile ''/etc/os-release'',
       ShowErrorMessage ''Setup cannot continue: Could not detect Linux distribution.'',
       AppendLine ''[Auditor] FATAL: Could not detect Linux distribution.''])
   \<and> runAudit gentoo_host [] =
     (Returns (Some [\<lparr>ar_dependency = git_requirement, isInstalled = True,
                      installedVersion = Some ''2.43.0''\<rparr>]),
      [AppendLine ''[Auditor] Starting system audit...'',
       AppendLine ''[Auditor] Performing pre-flight check for OS: linux'',
       ReadFile ''/etc/os-release'',
       AppendLine ''[Auditor] WARNING: Detected unsupported Linux distribution: gentoo.'',
       ReadFile ''/work/.devsetup.json'',
       AppendLine ''[Auditor] Found config file at: /work/.devsetup.json'',
       AppendLine ''[Auditor] Found 1 dependencies to check.'',
       Exec ''git --version'',
       AppendLine ''[Auditor] System audit complete.''])"
proof -
  have l1: "platform sample_host = Linux" and l2: "platform gentoo_host = Linux"
    by (simp_all add: gentoo_host_def sample_host_def)
  have r1: "read_file sample_host (preflight_read []) = Inl ''ENOENT''"
    by (simp add: sample_host_def)
  have r2: "read_file gentoo_host (preflight_read []) =
      Inr (''NAME=Gentoo'' @ [CHR 0x0A] @ ''ID=gentoo'' @ [CHR 0x0A])"
    by (simp add: gentoo_host_def sample_host_def preflight_read_def)
  have distro: "linux_distro (''NAME=Gentoo'' @ [CHR 0x0A] @ ''ID=gentoo'' @ [CHR 0x0A]) = Some ''gentoo''"
    by (simp add: linux_distro_def)
  have unsupported: "''gentoo'' \<notin> set supportedDistros"
    by (simp add: supportedDistros_def)
  have folders: "workspaceFolders gentoo_host = Some [''/work'']"
    and join: "path_join gentoo_host ''/work'' ''.devsetup.json'' = ''/work/.devsetup.json''"
    and parse: "json_parse gentoo_host devsetup_json = Parsed (DependencyArray [Some git_requirement])"
    and returns: "exec_returns gentoo_host h'"
    and reply: "exec_outcome gentoo_host h' =
        quiet_reply\<lparr>exec_stdout := ''git version 2.43.0'' @ [CHR 0x0A]\<rparr>"
    and coerce: "coerce_version gentoo_host (''git version 2.43.0'' @ [CHR 0x0A]) = Some ''2.43.0''"
    for h'
    by (simp_all add: gentoo_host_def sample_host_def)
  have content: "read_file gentoo_host (h' @ [ReadFile ''/work/.devsetup.json'']) = Inr devsetup_json"
    for h'
    by (simp add: gentoo_host_def sample_host_def)
  have config: "readConfigFile gentoo_host
      (preflight_read [] @
       [AppendLine (''[Auditor] WARNING: Detected unsupported Linux distribution: '' @
                    ''gentoo'' @ ''.'')]) =
     (Some (DependencyArray [Some git_requirement]),
      [AppendLine ''[Auditor] Starting system audit...'',
       AppendLine ''[Auditor] Performing pre-flight check for OS: linux'',
       ReadFile ''/etc/os-release'',
       AppendLine ''[Auditor] WARNING: Detected unsupported Linux distribution: gentoo.'',
       ReadFile ''/work/.devsetup.json'',
       AppendLine ''[Auditor] Found config file at: /work/.devsetup.json''])"
    using content [of "preflight_read [] @
       [AppendLine (''[Auditor] WARNING: Detected unsupported Linux distribution: '' @
                    ''gentoo'' @ ''.'')]"]
    by (simp add: readConfigFile_def folders join parse Let_def preflight_read_def)
  have rest: "audit_dependencies gentoo_host
      (preflight_read [] @
       [AppendLine (''[Auditor] WARNING: Detected unsupported Linux distribution: '' @
                    ''gentoo'' @ ''.'')]) =
     (Returns (Some [\<lparr>ar_dependency = git_requirement, isInstalled = True,
                      installedVersion = Some ''2.43.0''\<rparr>]),
      [AppendLine ''[Auditor] Starting system audit...'',
       AppendLine ''[Auditor] Performing pre-flight check for OS: linux'',
       ReadFile ''/etc/os-release'',
       AppendLine ''[Auditor] WARNING: Detected unsupported Linux distribution: gentoo.'',
       ReadFile ''/work/.devsetup.json'',
       AppendLine ''[Auditor] Found config file at: /work/.devsetup.json'',
       AppendLine ''[Auditor] Found 1 dependencies to check.'',
       Exec ''git --version'',
       AppendLine ''[Auditor] System audit complete.''])"
    using coerce unfolding audit_dependencies_def config
    by (simp add: checkSingleDependency_def Let_def returns reply quiet_reply_def
        git_requirement_def digits.simps digit_char_def)
  from os_release_preflight [OF l1, of "[]"] r1
  have first: "runAudit sample_host [] =
     (Returns None,
      preflight_read [] @
       [ShowErrorMessage ''Setup cannot continue: Could not detect Linux distribution.'',
        AppendLine ''[Auditor] FATAL: Could not detect Linux distribution.''])"
    by blast
  from os_release_preflight [OF l2, of "[]"] r2 distro unsupported
  have second: "runAudit gentoo_host [] =
      audit_dependencies gentoo_host
        (preflight_read [] @
         [AppendLine (''[Auditor] WARNING: Detected unsupported Linux distribution: '' @
                      ''gentoo'' @ ''.'')])"
    by blast
  show ?thesis
    unfolding first second rest by (simp add: preflight_read_def)
qed

end
